theory Spec2Isabelle
  imports Main "HOL-Library.Word" "HOL-Library.Multiset"
begin

unbundle bit_operations_syntax

section \<open>The igb-uio kernel module: data model\<close>

text \<open>
  The development embeds \<^verbatim>\<open>lib/librte_eal/linuxapp/igb_uio/igb_uio.c\<close>.
  C integers are words of their width; the C \<^verbatim>\<open>int\<close> status codes, which only ever
  take the values \<open>0\<close>, \<open>-1\<close>, \<open>-ENOMEM\<close> and \<open>-ENODEV\<close> here, are \<open>int\<close>.
  Pointers and \<^verbatim>\<open>unsigned long\<close> are 64-bit words, \<open>NULL\<close> being \<open>0\<close>.
\<close>

type_synonym u16 = "16 word"
type_synonym u32 = "32 word"
type_synonym s32 = "32 word"
type_synonym ulong = "64 word"

subsection \<open>Constants\<close>

text \<open>The MSI-X macros of lines 44-51 of the source.\<close>

definition PCI_MSIX_ENTRY_SIZE :: u32 where
  "PCI_MSIX_ENTRY_SIZE = 16"

definition PCI_MSIX_ENTRY_VECTOR_CTRL :: u32 where
  "PCI_MSIX_ENTRY_VECTOR_CTRL = 12"

definition PCI_MSIX_ENTRY_CTRL_MASKBIT :: u32 where
  "PCI_MSIX_ENTRY_CTRL_MASKBIT = 1"

definition IGBUIO_NUM_MSI_VECTORS :: nat where
  "IGBUIO_NUM_MSI_VECTORS = 1"

text \<open>
  Modelled from the spec: the kernel header \<^verbatim>\<open>linux/pci_regs.h\<close> is not part of the
  repository. \<open>PCI_COMMAND\<close> is the configuration-space offset of the 32-bit
  command/status register, \<open>PCI_COMMAND_INTX_DISABLE\<close> the "interrupt disable" bit of its
  16-bit command sub-field and \<open>PCI_STATUS_INTERRUPT\<close> the interrupt-pending bit of its
  status sub-field; they carry the values the PCI standard gives them.
\<close>

definition PCI_COMMAND :: nat where
  "PCI_COMMAND = 4"

definition PCI_COMMAND_INTX_DISABLE :: u16 where
  "PCI_COMMAND_INTX_DISABLE = 0x400"

definition PCI_STATUS_INTERRUPT :: u16 where
  "PCI_STATUS_INTERRUPT = 0x08"

subsection \<open>Structures\<close>

datatype igbuio_intr_mode =
    IGBUIO_LEGACY_INTR_MODE
  | IGBUIO_MSI_INTR_MODE
  | IGBUIO_MSIX_INTR_MODE
  | IGBUIO_INTR_MODE_MAX

definition igbuio_intr_mode_preferred :: igbuio_intr_mode where
  "igbuio_intr_mode_preferred = IGBUIO_MSIX_INTR_MODE"

datatype irqreturn_t = IRQ_NONE | IRQ_HANDLED

text \<open>
  The fields of the kernel's \<^verbatim>\<open>struct msi_desc\<close> that the module touches:
  \<^verbatim>\<open>msi_attrib.entry_nr\<close> (a \<^verbatim>\<open>__u16\<close>), the mirror \<^verbatim>\<open>masked\<close> of the vector-control
  word (a \<^verbatim>\<open>u32\<close>) and \<^verbatim>\<open>mask_base\<close>, the address of the mapped MSI-X table.
\<close>

record msi_desc =
  entry_nr :: u16
  masked :: u32
  mask_base :: ulong

record msix_entry =
  vector :: u32
  entry :: u16

record uio_mem =
  mem_name :: string
  addr :: ulong
  internal_addr :: ulong
  size :: ulong
  memtype :: int

record uio_info =
  name :: string
  version :: string
  mem :: "uio_mem list"
  irq :: int
  irq_flags :: ulong
  handler_set :: bool
  irqcontrol_set :: bool
  priv_set :: bool

text \<open>
  \<^verbatim>\<open>struct pci_dev\<close>: the list of MSI descriptors, the legacy line number and the
  BAR table read by \<^verbatim>\<open>pci_resource_start\<close> and \<^verbatim>\<open>pci_resource_len\<close>.
\<close>

record pci_dev =
  msi_list :: "msi_desc list"
  dev_irq :: u32
  resource_start :: "nat \<Rightarrow> ulong"
  resource_len :: "nat \<Rightarrow> ulong"

record rte_uio_pci_dev =
  info :: uio_info
  pdev :: pci_dev
  mode :: igbuio_intr_mode
  msix_entries :: "msix_entry list"

subsection \<open>The machine: configuration space, device memory and the log of accesses\<close>

datatype log_msg =
    Log_irq int bool
  | Log_cannot_enable
  | Log_cannot_set_dma
  | Log_cannot_request_regions
  | Log_msix_fail
  | Log_registered int

text \<open>
  Every call of a kernel primitive is logged in program order, with its result where
  the primitive has one. \<open>Set_masked\<close> logs the store to \<^verbatim>\<open>desc->masked\<close>, so that its
  place among the device accesses can be read from the log.
\<close>

datatype event =
    Writel u32 ulong
  | Readl ulong
  | Set_masked u16 u32
  | Pci_read_config_dword nat int
  | Pci_write_config_word nat u16 int
  | Spin_lock_irqsave
  | Spin_unlock_irqrestore
  | PCI_LOCK
  | PCI_UNLOCK
  | Printk log_msg
  | Kzalloc bool
  | Kfree
  | Pci_enable_device int
  | Pci_disable_device
  | Pci_set_dma_mask ulong int
  | Pci_request_regions string int
  | Pci_release_regions
  | Pci_set_master
  | Ioremap ulong ulong ulong
  | Iounmap ulong
  | Spin_lock_init
  | Pci_enable_msix "u16 list" nat int
  | Pci_disable_msix
  | Pci_set_drvdata
  | Uio_register_device int

text \<open>
  Configuration space is held as its 16-bit registers, indexed by byte offset: the
  command register is \<open>cfg s PCI_COMMAND\<close>, the status register \<open>cfg s (PCI_COMMAND + 2)\<close>.
  A configuration write stores the word it is given; what the device makes of single
  bits is not modelled. \<open>cfg_read_ret\<close> and \<open>cfg_write_ret\<close> are what the bus answers to
  a configuration access (\<open>0\<close> is success); \<open>cfg_fault_data\<close> is what a failed read
  leaves in the caller's variable, and a failed write stores nothing.
\<close>

record kstate =
  cfg :: "nat \<Rightarrow> u16"
  mmio :: "ulong \<Rightarrow> u32"
  cfg_read_ret :: int
  cfg_write_ret :: int
  cfg_fault_data :: u32
  trace :: "event list"

definition log_event :: "event \<Rightarrow> kstate \<Rightarrow> kstate" where
  "log_event e s = s\<lparr>trace := trace s @ [e]\<rparr>"

definition writel :: "u32 \<Rightarrow> ulong \<Rightarrow> kstate \<Rightarrow> kstate" where
  "writel v a s = log_event (Writel v a) (s\<lparr>mmio := (mmio s)(a := v)\<rparr>)"

definition readl :: "ulong \<Rightarrow> kstate \<Rightarrow> u32 \<times> kstate" where
  "readl a s = (mmio s a, log_event (Readl a) s)"

definition pci_read_config_dword :: "nat \<Rightarrow> kstate \<Rightarrow> int \<times> u32 \<times> kstate" where
  "pci_read_config_dword wh s =
     (let s' = log_event (Pci_read_config_dword wh (cfg_read_ret s)) s in
      if cfg_read_ret s = 0
      then (0, push_bit 16 (ucast (cfg s (wh + 2))) OR ucast (cfg s wh), s')
      else (cfg_read_ret s, cfg_fault_data s, s'))"

definition pci_write_config_word :: "nat \<Rightarrow> u16 \<Rightarrow> kstate \<Rightarrow> int \<times> kstate" where
  "pci_write_config_word wh v s =
     (let s' = log_event (Pci_write_config_word wh v (cfg_write_ret s)) s in
      if cfg_write_ret s = 0
      then (0, s'\<lparr>cfg := (cfg s)(wh := v)\<rparr>)
      else (cfg_write_ret s, s'))"

section \<open>The interrupt mask controller\<close>

text \<open>\<^verbatim>\<open>igbuio_msix_mask_irq\<close>, lines 93-112.\<close>

definition igbuio_msix_mask_irq :: "msi_desc \<Rightarrow> s32 \<Rightarrow> kstate \<Rightarrow> int \<times> msi_desc \<times> kstate" where
  "igbuio_msix_mask_irq desc state s =
     (let offset = (ucast (entry_nr desc) * PCI_MSIX_ENTRY_SIZE + PCI_MSIX_ENTRY_VECTOR_CTRL :: u32);
          mask_bits = (if state \<noteq> 0
                       then masked desc AND NOT PCI_MSIX_ENTRY_CTRL_MASKBIT
                       else masked desc OR PCI_MSIX_ENTRY_CTRL_MASKBIT)
      in if mask_bits \<noteq> masked desc
         then let s1 = writel mask_bits (mask_base desc + ucast offset) s;
                  s2 = snd (readl (mask_base desc) s1);
                  s3 = log_event (Set_masked (entry_nr desc) mask_bits) s2
              in (0, desc\<lparr>masked := mask_bits\<rparr>, s3)
         else (0, desc, s))"

text \<open>The \<^verbatim>\<open>list_for_each_entry\<close> loop of lines 133-135.\<close>

fun msi_list_for_each :: "msi_desc list \<Rightarrow> s32 \<Rightarrow> kstate \<Rightarrow> msi_desc list \<times> kstate" where
  "msi_list_for_each [] state s = ([], s)"
| "msi_list_for_each (desc # rest) state s =
     (case igbuio_msix_mask_irq desc state s of
        (_, desc', s') \<Rightarrow>
          (case msi_list_for_each rest state s' of
             (rest', s'') \<Rightarrow> (desc' # rest', s'')))"

text \<open>\<^verbatim>\<open>igbuio_set_interrupt_mask\<close>, lines 125-153.\<close>

definition igbuio_set_interrupt_mask ::
    "rte_uio_pci_dev \<Rightarrow> s32 \<Rightarrow> kstate \<Rightarrow> int \<times> rte_uio_pci_dev \<times> kstate" where
  "igbuio_set_interrupt_mask udev state s =
     (if mode udev = IGBUIO_MSIX_INTR_MODE then
        (case msi_list_for_each (msi_list (pdev udev)) state s of
           (l, s') \<Rightarrow> (0, udev\<lparr>pdev := (pdev udev)\<lparr>msi_list := l\<rparr>\<rparr>, s'))
      else if mode udev = IGBUIO_LEGACY_INTR_MODE then
        (case pci_read_config_dword PCI_COMMAND s of
           (_, status, s1) \<Rightarrow>
             let old = (ucast status :: u16);
                 new = (if state \<noteq> 0
                        then old AND NOT PCI_COMMAND_INTX_DISABLE
                        else old OR PCI_COMMAND_INTX_DISABLE)
             in if old \<noteq> new
                then (0, udev, snd (pci_write_config_word PCI_COMMAND new s1))
                else (0, udev, s1))
      else (0, udev, s))"

text \<open>\<^verbatim>\<open>igbuio_pci_irqcontrol\<close>, lines 168-184.\<close>

definition igbuio_pci_irqcontrol ::
    "rte_uio_pci_dev \<Rightarrow> s32 \<Rightarrow> kstate \<Rightarrow> int \<times> rte_uio_pci_dev \<times> kstate" where
  "igbuio_pci_irqcontrol udev irq_state s =
     (let s1 = log_event Spin_lock_irqsave s;
          s2 = log_event PCI_LOCK s1
      in case igbuio_set_interrupt_mask udev irq_state s2 of
           (_, udev', s3) \<Rightarrow>
             let s4 = log_event PCI_UNLOCK s3;
                 s5 = log_event Spin_unlock_irqrestore s4
             in (0, udev', s5))"

text \<open>\<^verbatim>\<open>igbuio_pci_irqhandler\<close>, lines 190-222.\<close>

definition irqhandler_done ::
    "int \<Rightarrow> irqreturn_t \<Rightarrow> rte_uio_pci_dev \<Rightarrow> kstate \<Rightarrow> irqreturn_t \<times> rte_uio_pci_dev \<times> kstate" where
  "irqhandler_done irqn ret udev s =
     (let s1 = log_event PCI_UNLOCK s;
          s2 = log_event Spin_unlock_irqrestore s1;
          s3 = log_event (Printk (Log_irq irqn (ret = IRQ_HANDLED))) s2
      in (ret, udev, s3))"

definition igbuio_pci_irqhandler ::
    "int \<Rightarrow> rte_uio_pci_dev \<Rightarrow> kstate \<Rightarrow> irqreturn_t \<times> rte_uio_pci_dev \<times> kstate" where
  "igbuio_pci_irqhandler irqn udev s =
     (let s1 = log_event Spin_lock_irqsave s;
          s2 = log_event PCI_LOCK s1
      in if mode udev = IGBUIO_LEGACY_INTR_MODE then
           (case pci_read_config_dword PCI_COMMAND s2 of
              (_, cmd_status_dword, s3) \<Rightarrow>
                let status = (ucast (drop_bit 16 cmd_status_dword) :: u16)
                in if status AND PCI_STATUS_INTERRUPT = 0
                   then irqhandler_done irqn IRQ_NONE udev s3
                   else (case igbuio_set_interrupt_mask udev 0 s3 of
                           (_, udev', s4) \<Rightarrow> irqhandler_done irqn IRQ_HANDLED udev' s4))
         else (case igbuio_set_interrupt_mask udev 0 s2 of
                 (_, udev', s3) \<Rightarrow> irqhandler_done irqn IRQ_HANDLED udev' s3))"

section \<open>The resource lifecycle\<close>

text \<open>
  Modelled from the spec: the kernel headers that declare these constants are not part
  of the repository. \<open>MAX_UIO_MAPS\<close> is the number of region slots of a \<^verbatim>\<open>uio_info\<close>
  (the spec's "maximum 5 slots"), \<open>UIO_MEM_PHYS\<close> the memory type recorded for a mapped
  region, \<open>IRQF_SHARED\<close> the flag that marks an interrupt line shareable, and \<open>ENOMEM\<close>
  and \<open>ENODEV\<close> the error numbers whose negations are the probe's failure statuses.
\<close>

definition MAX_UIO_MAPS :: nat where
  "MAX_UIO_MAPS = 5"

definition UIO_MEM_PHYS :: int where
  "UIO_MEM_PHYS = 1"

definition IRQF_SHARED :: ulong where
  "IRQF_SHARED = 0x80"

definition ENOMEM :: int where
  "ENOMEM = 12"

definition ENODEV :: int where
  "ENODEV = 19"

text \<open>
  What the platform answers during one attach: the outcome of each primitive the probe
  calls. \<open>ioremap_ret\<close> is the mapping primitive (\<open>0\<close> is \<open>NULL\<close>); on success
  \<^verbatim>\<open>pci_enable_msix\<close> returns \<open>0\<close>, hangs \<open>msix_descs\<close> on the device and assigns
  \<open>msix_vector i\<close> to the \<open>i\<close>-th requested entry.
\<close>

record probe_env =
  kzalloc_ok :: bool
  enable_device_ret :: int
  set_dma_mask_ret :: int
  request_regions_ret :: int
  ioremap_ret :: "ulong \<Rightarrow> ulong \<Rightarrow> ulong"
  enable_msix_ret :: int
  msix_vector :: "nat \<Rightarrow> u32"
  msix_descs :: "msi_desc list"
  uio_register_ret :: int

text \<open>\<^verbatim>\<open>igbuio_pci_setup_iomem\<close>, lines 225-245. The region index and the BAR index, which
  the only call passes as 0, are natural numbers. Storing to a slot outside the region
  table is undefined in C: the model has no result (\<open>None\<close>) there.\<close>

definition igbuio_pci_setup_iomem ::
    "(ulong \<Rightarrow> ulong \<Rightarrow> ulong) \<Rightarrow> pci_dev \<Rightarrow> uio_info \<Rightarrow> nat \<Rightarrow> nat \<Rightarrow> string \<Rightarrow> kstate
      \<Rightarrow> (int \<times> uio_info \<times> kstate) option" where
  "igbuio_pci_setup_iomem iomap dev uinfo n pci_bar nm s =
     (let a = resource_start dev pci_bar;
          len = resource_len dev pci_bar
      in if a = 0 \<or> len = 0 then Some (- 1, uinfo, s)
         else let p = iomap a len;
                  s1 = log_event (Ioremap a len p) s
              in if p = 0 then Some (- 1, uinfo, s1)
                 else if n < length (mem uinfo)
                 then Some (0,
                        uinfo\<lparr>mem := (mem uinfo)[n := \<lparr>mem_name = nm, addr = a, internal_addr = p,
                                                   size = len, memtype = UIO_MEM_PHYS\<rparr>]\<rparr>,
                        s1)
                 else None)"

text \<open>\<^verbatim>\<open>igbuio_pci_release_iomem\<close>, lines 248-256: the \<^verbatim>\<open>for\<close> loop from slot \<open>i\<close> on.\<close>

function release_iomem_loop :: "nat \<Rightarrow> uio_info \<Rightarrow> kstate \<Rightarrow> kstate" where
  "release_iomem_loop i uinfo s =
     (if i < MAX_UIO_MAPS
      then release_iomem_loop (i + 1) uinfo
             (if internal_addr (mem uinfo ! i) \<noteq> 0
              then log_event (Iounmap (internal_addr (mem uinfo ! i))) s
              else s)
      else s)"
  by pat_completeness auto
termination
  by (relation "measure (\<lambda>(i, uinfo, s). MAX_UIO_MAPS - i)") auto

declare release_iomem_loop.simps [simp del]

definition igbuio_pci_release_iomem :: "uio_info \<Rightarrow> kstate \<Rightarrow> kstate" where
  "igbuio_pci_release_iomem uinfo s = release_iomem_loop 0 uinfo s"

text \<open>
  The context as \<^verbatim>\<open>kzalloc\<close> returns it: every field zero, the region table with its
  \<open>MAX_UIO_MAPS\<close> slots. \<^verbatim>\<open>udev->pdev\<close> is a pointer to the device; the model keeps the
  device itself in the context, and from the assignment of line 305 on reads and updates
  the device there.
\<close>

definition zero_uio_mem :: uio_mem where
  "zero_uio_mem = \<lparr>mem_name = [], addr = 0, internal_addr = 0, size = 0, memtype = 0\<rparr>"

definition kzalloc_udev :: "pci_dev \<Rightarrow> rte_uio_pci_dev" where
  "kzalloc_udev dev =
     \<lparr>info = \<lparr>name = [], version = [], mem = replicate MAX_UIO_MAPS zero_uio_mem,
              irq = 0, irq_flags = 0, handler_set = False, irqcontrol_set = False,
              priv_set = False\<rparr>,
      pdev = dev, mode = IGBUIO_LEGACY_INTR_MODE,
      msix_entries = replicate IGBUIO_NUM_MSI_VECTORS \<lparr>vector = 0, entry = 0\<rparr>\<rparr>"

definition pci_enable_msix ::
    "probe_env \<Rightarrow> pci_dev \<Rightarrow> msix_entry list \<Rightarrow> nat \<Rightarrow> kstate
      \<Rightarrow> int \<times> pci_dev \<times> msix_entry list \<times> kstate" where
  "pci_enable_msix env d entries nvec s =
     (let s' = log_event (Pci_enable_msix (map entry entries) nvec (enable_msix_ret env)) s
      in if enable_msix_ret env = 0
         then (0, d\<lparr>msi_list := msix_descs env\<rparr>,
               map (\<lambda>i. (entries ! i)\<lparr>vector := msix_vector env i\<rparr>) [0..<length entries], s')
         else (enable_msix_ret env, d, entries, s'))"

text \<open>The labels at the end of \<^verbatim>\<open>igbuio_pci_probe\<close>, lines 350-361; each falls through
  to the next.\<close>

definition fail_free :: "kstate \<Rightarrow> int \<times> rte_uio_pci_dev option \<times> kstate" where
  "fail_free s = (- ENODEV, None, log_event Kfree s)"

definition fail_disable :: "kstate \<Rightarrow> int \<times> rte_uio_pci_dev option \<times> kstate" where
  "fail_disable s = fail_free (log_event Pci_disable_device s)"

definition fail_release_regions :: "kstate \<Rightarrow> int \<times> rte_uio_pci_dev option \<times> kstate" where
  "fail_release_regions s = fail_disable (log_event Pci_release_regions s)"

definition fail_release_iomem ::
    "rte_uio_pci_dev \<Rightarrow> kstate \<Rightarrow> int \<times> rte_uio_pci_dev option \<times> kstate" where
  "fail_release_iomem udev s =
     (let s1 = igbuio_pci_release_iomem (info udev) s;
          s2 = (if mode udev = IGBUIO_MSIX_INTR_MODE then log_event Pci_disable_msix s1 else s1)
      in fail_release_regions s2)"

text \<open>Lines 299-307: the uio fields, the device pointer and the default mode.\<close>

definition probe_fill_info :: "pci_dev \<Rightarrow> rte_uio_pci_dev \<Rightarrow> kstate \<Rightarrow> rte_uio_pci_dev \<times> kstate" where
  "probe_fill_info dev udev s =
     (udev\<lparr>info := (info udev)\<lparr>name := ''Intel IGB UIO'', version := ''0.1'',
                                 handler_set := True, irqcontrol_set := True,
                                 priv_set := True\<rparr>,
            pdev := dev, mode := IGBUIO_LEGACY_INTR_MODE\<rparr>,
      log_event Spin_lock_init s)"

text \<open>Lines 309-323: MSI-X is tried first when it is the preferred mode.\<close>

definition probe_try_msix ::
    "probe_env \<Rightarrow> rte_uio_pci_dev \<Rightarrow> kstate \<Rightarrow> rte_uio_pci_dev \<times> kstate" where
  "probe_try_msix env udev s =
     (if igbuio_intr_mode_preferred = IGBUIO_MSIX_INTR_MODE then
        let entries = map (\<lambda>v. (msix_entries udev ! v)\<lparr>entry := of_nat v\<rparr>)
                        [0..<IGBUIO_NUM_MSI_VECTORS]
        in case pci_enable_msix env (pdev udev) entries IGBUIO_NUM_MSI_VECTORS s of
             (r, d, entries', s1) \<Rightarrow>
               if r = 0
               then (udev\<lparr>pdev := d, msix_entries := entries', mode := IGBUIO_MSIX_INTR_MODE\<rparr>, s1)
               else (udev\<lparr>pdev := d, msix_entries := entries'\<rparr>,
                     log_event (Printk Log_msix_fail) (log_event Pci_disable_msix s1))
      else (udev, s))"

text \<open>Lines 324-337: the \<^verbatim>\<open>switch\<close> on the mode.\<close>

definition probe_set_irq :: "rte_uio_pci_dev \<Rightarrow> rte_uio_pci_dev" where
  "probe_set_irq udev =
     (case mode udev of
        IGBUIO_MSIX_INTR_MODE \<Rightarrow>
          udev\<lparr>info := (info udev)\<lparr>irq := uint (vector (msix_entries udev ! 0)), irq_flags := 0\<rparr>\<rparr>
      | IGBUIO_MSI_INTR_MODE \<Rightarrow> udev
      | IGBUIO_LEGACY_INTR_MODE \<Rightarrow>
          udev\<lparr>info := (info udev)\<lparr>irq := uint (dev_irq (pdev udev)), irq_flags := IRQF_SHARED\<rparr>\<rparr>
      | IGBUIO_INTR_MODE_MAX \<Rightarrow> udev)"

text \<open>Lines 339-348 and the jump to \<^verbatim>\<open>fail_release_iomem\<close>.\<close>

definition probe_register ::
    "probe_env \<Rightarrow> rte_uio_pci_dev \<Rightarrow> kstate \<Rightarrow> int \<times> rte_uio_pci_dev option \<times> kstate" where
  "probe_register env udev s =
     (let s1 = log_event Pci_set_drvdata s
      in case igbuio_pci_irqcontrol udev 0 s1 of
           (_, udev', s2) \<Rightarrow>
             let s3 = log_event (Uio_register_device (uio_register_ret env)) s2
             in if uio_register_ret env \<noteq> 0 then fail_release_iomem udev' s3
                else (0, Some udev', log_event (Printk (Log_registered (irq (info udev')))) s3))"

text \<open>\<^verbatim>\<open>igbuio_pci_probe\<close>, lines 258-362. The result is the status, the context that
  stays allocated (none after \<^verbatim>\<open>kfree\<close>) and the machine.\<close>

definition igbuio_pci_probe ::
    "probe_env \<Rightarrow> pci_dev \<Rightarrow> kstate \<Rightarrow> (int \<times> rte_uio_pci_dev option \<times> kstate) option" where
  "igbuio_pci_probe env dev s =
     (let s1 = log_event (Kzalloc (kzalloc_ok env)) s
      in if \<not> kzalloc_ok env then Some (- ENOMEM, None, s1)
         else
           let udev = kzalloc_udev dev;
               s2 = log_event (Pci_enable_device (enable_device_ret env)) s1
           in if enable_device_ret env \<noteq> 0
              then Some (fail_free (log_event (Printk Log_cannot_enable) s2))
              else
                let s3 = log_event (Pci_set_dma_mask 0xffffffff (set_dma_mask_ret env)) s2
                in if set_dma_mask_ret env \<noteq> 0
                   then Some (fail_disable (log_event (Printk Log_cannot_set_dma) s3))
                   else
                     let s4 = log_event (Pci_request_regions ''igb_uio''
                                           (request_regions_ret env)) s3
                     in if request_regions_ret env \<noteq> 0
                        then Some (fail_disable
                                     (log_event (Printk Log_cannot_request_regions) s4))
                        else
                          let s5 = log_event Pci_set_master s4
                          in case igbuio_pci_setup_iomem (ioremap_ret env) dev (info udev)
                                    0 0 ''config'' s5 of
                               None \<Rightarrow> None
                             | Some (r, uinfo, s6) \<Rightarrow>
                                 if r \<noteq> 0 then Some (fail_release_regions s6)
                                 else
                                   (case probe_fill_info dev (udev\<lparr>info := uinfo\<rparr>) s6 of
                                      (udev1, s7) \<Rightarrow>
                                        (case probe_try_msix env udev1 s7 of
                                           (udev2, s8) \<Rightarrow>
                                             Some (probe_register env
                                                     (probe_set_irq udev2) s8))))"

section \<open>What the claims speak about\<close>

text \<open>
  The definitions of this section do not model code: they phrase the claims, and the
  theorems compare the code with them.
\<close>

text \<open>The vector-control word wanted for a request: bit 0 clear to unmask, set to mask.\<close>

definition spec_mask_word :: "s32 \<Rightarrow> u32 \<Rightarrow> u32" where
  "spec_mask_word state m = (if state \<noteq> 0 then unset_bit 0 m else set_bit 0 m)"

text \<open>The byte address of a descriptor's vector-control word: 16 bytes per entry, the
  fourth 32-bit word of the entry.\<close>

definition spec_ctrl_addr :: "msi_desc \<Rightarrow> ulong" where
  "spec_ctrl_addr d = mask_base d + of_nat (unat (entry_nr d) * 16 + 12)"

text \<open>The accesses one descriptor costs: none when the mirror already has the wanted
  bit, else the write, the read of the table base and then the store to the mirror.\<close>

definition spec_msix_accesses :: "s32 \<Rightarrow> msi_desc \<Rightarrow> event list" where
  "spec_msix_accesses state d =
     (if bit (masked d) 0 = (state = 0) then []
      else [Writel (spec_mask_word state (masked d)) (spec_ctrl_addr d),
            Readl (mask_base d),
            Set_masked (entry_nr d) (spec_mask_word state (masked d))])"

text \<open>What a read of the 32-bit command/status register delivers to the caller (the
  register itself when the bus answers the read), and its two 16-bit sub-fields: the
  command in the lower half, the status in the upper half.\<close>

definition cmd_status_read :: "kstate \<Rightarrow> u32" where
  "cmd_status_read s = fst (snd (pci_read_config_dword PCI_COMMAND s))"

definition spec_command :: "kstate \<Rightarrow> u16" where
  "spec_command s = ucast (cmd_status_read s)"

definition spec_status :: "kstate \<Rightarrow> u16" where
  "spec_status s = ucast (drop_bit 16 (cmd_status_read s))"

text \<open>The command word wanted for a request: the interrupt-disable bit (bit 10) clear
  to enable, set to disable.\<close>

definition spec_cmd_word :: "s32 \<Rightarrow> u16 \<Rightarrow> u16" where
  "spec_cmd_word state old = (if state \<noteq> 0 then unset_bit 10 old else set_bit 10 old)"

text \<open>What a handled interrupt looks like from outside: the status \<open>IRQ_HANDLED\<close>, the
  context as the mask controller left it, and the two guards released before the log
  line.\<close>

definition spec_handled ::
    "int \<Rightarrow> int \<times> rte_uio_pci_dev \<times> kstate \<Rightarrow> irqreturn_t \<times> rte_uio_pci_dev \<times> kstate" where
  "spec_handled irqn res =
     (IRQ_HANDLED, fst (snd res),
      (snd (snd res))\<lparr>trace := trace (snd (snd res)) @
         [PCI_UNLOCK, Spin_unlock_irqrestore, Printk (Log_irq irqn True)]\<rparr>)"

text \<open>The hardware writes of a log: stores to device memory and configuration writes.\<close>

fun is_hw_write :: "event \<Rightarrow> bool" where
  "is_hw_write (Writel v a) = True"
| "is_hw_write (Pci_write_config_word wh v r) = True"
| "is_hw_write _ = False"

definition hw_writes :: "event list \<Rightarrow> event list" where
  "hw_writes tr = filter is_hw_write tr"

fun is_printk :: "event \<Rightarrow> bool" where
  "is_printk (Printk m) = True"
| "is_printk _ = False"

text \<open>Device memory after the loop over the descriptors: the words written, in order.\<close>

fun msix_mmio_after :: "s32 \<Rightarrow> msi_desc list \<Rightarrow> (ulong \<Rightarrow> u32) \<Rightarrow> (ulong \<Rightarrow> u32)" where
  "msix_mmio_after state [] m = m"
| "msix_mmio_after state (d # l) m =
     msix_mmio_after state l
       (if bit (masked d) 0 = (state = 0) then m
        else m(spec_ctrl_addr d := spec_mask_word state (masked d)))"

subsection \<open>Resources, stages and results of the probe\<close>

text \<open>The resources an attach holds, and the events that take them and give them back.
  A request for MSI-X vectors counts as taking the MSI-X allocation whatever it returns:
  after a failed request the code gives the partial allocation back with
  \<^verbatim>\<open>pci_disable_msix\<close>.\<close>

datatype resource = Res_context | Res_device | Res_regions | Res_iomem ulong | Res_msix

fun acquires :: "event \<Rightarrow> resource list" where
  "acquires (Kzalloc ok) = (if ok then [Res_context] else [])"
| "acquires (Pci_enable_device r) = (if r = 0 then [Res_device] else [])"
| "acquires (Pci_request_regions nm r) = (if r = 0 then [Res_regions] else [])"
| "acquires (Ioremap a l p) = (if p \<noteq> 0 then [Res_iomem p] else [])"
| "acquires (Pci_enable_msix es n r) = [Res_msix]"
| "acquires _ = []"

fun releases :: "event \<Rightarrow> resource list" where
  "releases Kfree = [Res_context]"
| "releases Pci_disable_device = [Res_device]"
| "releases Pci_release_regions = [Res_regions]"
| "releases (Iounmap p) = [Res_iomem p]"
| "releases Pci_disable_msix = [Res_msix]"
| "releases _ = []"

definition acquired :: "event list \<Rightarrow> resource list" where
  "acquired tr = concat (map acquires tr)"

definition released :: "event list \<Rightarrow> resource list" where
  "released tr = concat (map releases tr)"

fun is_msix_request :: "event \<Rightarrow> bool" where
  "is_msix_request (Pci_enable_msix es n r) = True"
| "is_msix_request _ = False"

text \<open>The stages at which an attach can fail, in the order of the code, and the first one
  that fails for given answers of the platform; \<open>probe_ready\<close> says that every stage
  before the choice of the mode succeeds. A failed MSI-X request is not a failure of the
  attach and is not among the stages.\<close>

datatype stage = St_alloc | St_enable | St_dma_mask | St_regions | St_iomem | St_register

definition probe_ready :: "probe_env \<Rightarrow> pci_dev \<Rightarrow> bool" where
  "probe_ready env dev =
     (kzalloc_ok env \<and> enable_device_ret env = 0 \<and> set_dma_mask_ret env = 0
      \<and> request_regions_ret env = 0 \<and> resource_start dev 0 \<noteq> 0 \<and> resource_len dev 0 \<noteq> 0
      \<and> ioremap_ret env (resource_start dev 0) (resource_len dev 0) \<noteq> 0)"

definition first_failure :: "probe_env \<Rightarrow> pci_dev \<Rightarrow> stage option" where
  "first_failure env dev =
     (if \<not> kzalloc_ok env then Some St_alloc
      else if enable_device_ret env \<noteq> 0 then Some St_enable
      else if set_dma_mask_ret env \<noteq> 0 then Some St_dma_mask
      else if request_regions_ret env \<noteq> 0 then Some St_regions
      else if resource_start dev 0 = 0 \<or> resource_len dev 0 = 0
              \<or> ioremap_ret env (resource_start dev 0) (resource_len dev 0) = 0
           then Some St_iomem
      else if uio_register_ret env \<noteq> 0 then Some St_register
      else None)"

text \<open>The status the probe returns, the context it leaves allocated and the events it adds
  to the log.\<close>

definition probe_status :: "probe_env \<Rightarrow> pci_dev \<Rightarrow> kstate \<Rightarrow> int option" where
  "probe_status env dev s = map_option fst (igbuio_pci_probe env dev s)"

definition probe_ctx :: "probe_env \<Rightarrow> pci_dev \<Rightarrow> kstate \<Rightarrow> rte_uio_pci_dev option" where
  "probe_ctx env dev s =
     (case igbuio_pci_probe env dev s of None \<Rightarrow> None | Some (r, ctx, s') \<Rightarrow> ctx)"

definition probe_log :: "probe_env \<Rightarrow> pci_dev \<Rightarrow> kstate \<Rightarrow> event list" where
  "probe_log env dev s =
     (case igbuio_pci_probe env dev s of
        None \<Rightarrow> []
      | Some (r, ctx, s') \<Rightarrow> drop (length (trace s)) (trace s'))"

text \<open>The events one call of the mask controller adds to the log, and the kinds of event
  it can add.\<close>

definition mask_log :: "rte_uio_pci_dev \<Rightarrow> s32 \<Rightarrow> kstate \<Rightarrow> event list" where
  "mask_log udev x s =
     drop (length (trace s)) (trace (snd (snd (igbuio_set_interrupt_mask udev x s))))"

fun is_mask_access :: "event \<Rightarrow> bool" where
  "is_mask_access (Writel v a) = True"
| "is_mask_access (Readl a) = True"
| "is_mask_access (Set_masked e v) = True"
| "is_mask_access (Pci_read_config_dword wh r) = True"
| "is_mask_access (Pci_write_config_word wh v r) = True"
| "is_mask_access _ = False"

text \<open>The context and the log when the probe reaches the choice of the mode
  (line 309), every earlier stage having succeeded.\<close>

definition ready_udev :: "probe_env \<Rightarrow> pci_dev \<Rightarrow> rte_uio_pci_dev" where
  "ready_udev env dev =
     \<lparr>info = \<lparr>name = ''Intel IGB UIO'', version = ''0.1'',
              mem = (replicate MAX_UIO_MAPS zero_uio_mem)
                [0 := \<lparr>mem_name = ''config'', addr = resource_start dev 0,
                        internal_addr = ioremap_ret env (resource_start dev 0) (resource_len dev 0),
                        size = resource_len dev 0, memtype = UIO_MEM_PHYS\<rparr>],
              irq = 0, irq_flags = 0, handler_set = True, irqcontrol_set = True,
              priv_set = True\<rparr>,
      pdev = dev, mode = IGBUIO_LEGACY_INTR_MODE,
      msix_entries = replicate IGBUIO_NUM_MSI_VECTORS \<lparr>vector = 0, entry = 0\<rparr>\<rparr>"

definition ready_log :: "probe_env \<Rightarrow> pci_dev \<Rightarrow> event list" where
  "ready_log env dev =
     [Kzalloc True, Pci_enable_device 0, Pci_set_dma_mask 0xffffffff 0,
      Pci_request_regions ''igb_uio'' 0, Pci_set_master,
      Ioremap (resource_start dev 0) (resource_len dev 0)
        (ioremap_ret env (resource_start dev 0) (resource_len dev 0)),
      Spin_lock_init]"

text \<open>The events of the choice of the mode, the context after lines 309-337, and the
  events that follow the registration call.\<close>

definition msix_log :: "probe_env \<Rightarrow> event list" where
  "msix_log env =
     (if enable_msix_ret env = 0 then [Pci_enable_msix [0] 1 0]
      else [Pci_enable_msix [0] 1 (enable_msix_ret env), Pci_disable_msix, Printk Log_msix_fail])"

definition chosen_udev :: "probe_env \<Rightarrow> pci_dev \<Rightarrow> rte_uio_pci_dev" where
  "chosen_udev env dev =
     (if enable_msix_ret env = 0
      then (ready_udev env dev)
             \<lparr>info := (info (ready_udev env dev))\<lparr>irq := uint (msix_vector env 0), irq_flags := 0\<rparr>,
              pdev := dev\<lparr>msi_list := msix_descs env\<rparr>,
              msix_entries := [\<lparr>vector = msix_vector env 0, entry = 0\<rparr>],
              mode := IGBUIO_MSIX_INTR_MODE\<rparr>
      else (ready_udev env dev)
             \<lparr>info := (info (ready_udev env dev))\<lparr>irq := uint (dev_irq dev),
                                                  irq_flags := IRQF_SHARED\<rparr>,
              msix_entries := [\<lparr>vector = 0, entry = 0\<rparr>]\<rparr>)"

definition unwind_log :: "probe_env \<Rightarrow> pci_dev \<Rightarrow> event list" where
  "unwind_log env dev =
     (if uio_register_ret env \<noteq> 0
      then Iounmap (ioremap_ret env (resource_start dev 0) (resource_len dev 0)) #
           (if enable_msix_ret env = 0 then [Pci_disable_msix] else []) @
           [Pci_release_regions, Pci_disable_device, Kfree]
      else [Printk (Log_registered (irq (info (chosen_udev env dev))))])"

subsection \<open>Sample machines and contexts\<close>

definition ex_kstate :: kstate where
  "ex_kstate =
     \<lparr>cfg = (\<lambda>_. 0)(PCI_COMMAND := 0x0007, PCI_COMMAND + 2 := 0x0018), mmio = (\<lambda>_. 0),
      cfg_read_ret = 0, cfg_write_ret = 0, cfg_fault_data = 0, trace = []\<rparr>"

definition ex_desc :: msi_desc where
  "ex_desc = \<lparr>entry_nr = 3, masked = 0, mask_base = 0x2000\<rparr>"

definition ex_dev :: pci_dev where
  "ex_dev = \<lparr>msi_list = [ex_desc], dev_irq = 11,
             resource_start = (\<lambda>_. 0)(0 := 0x1000), resource_len = (\<lambda>_. 0)(0 := 0x1000)\<rparr>"

definition ex_udev :: "igbuio_intr_mode \<Rightarrow> rte_uio_pci_dev" where
  "ex_udev m = (kzalloc_udev ex_dev)\<lparr>mode := m\<rparr>"

text \<open>A machine whose command register has the interrupt-disable bit set, as the probe
  leaves it, and two requests in a row on it.\<close>

definition ex_masked_kstate :: kstate where
  "ex_masked_kstate = ex_kstate\<lparr>cfg := (cfg ex_kstate)(PCI_COMMAND := 0x0407)\<rparr>"

definition ex_twice ::
    "igbuio_intr_mode \<Rightarrow> s32 \<Rightarrow> s32 \<Rightarrow> kstate \<Rightarrow> int \<times> rte_uio_pci_dev \<times> kstate" where
  "ex_twice m x y s =
     igbuio_set_interrupt_mask (fst (snd (igbuio_set_interrupt_mask (ex_udev m) x s))) y
       (snd (snd (igbuio_set_interrupt_mask (ex_udev m) x s)))"

text \<open>A machine whose bus reports the configuration read as failed
  (\<open>PCIBIOS_DEVICE_NOT_FOUND\<close>) and leaves all ones in the caller's variable, two whose
  bus reports the write as failed, and one whose vector-control word has a bit that its
  mirror lacks.\<close>

definition ex_read_fault_kstate :: kstate where
  "ex_read_fault_kstate = ex_kstate\<lparr>cfg_read_ret := 0x86, cfg_fault_data := 0xFFFFFFFF\<rparr>"

definition ex_write_fault_kstate :: kstate where
  "ex_write_fault_kstate = ex_kstate\<lparr>cfg_write_ret := 0x86\<rparr>"

definition ex_masked_write_fault_kstate :: kstate where
  "ex_masked_write_fault_kstate = ex_masked_kstate\<lparr>cfg_write_ret := 0x86\<rparr>"

definition ex_stale_mirror_kstate :: kstate where
  "ex_stale_mirror_kstate = ex_kstate\<lparr>mmio := (mmio ex_kstate)(0x203C := 2)\<rparr>"

text \<open>An MSI-X context with two descriptors, both masked, and two requests in a row on
  it.\<close>

definition ex_udev_two :: rte_uio_pci_dev where
  "ex_udev_two =
     (kzalloc_udev (ex_dev\<lparr>msi_list := [\<lparr>entry_nr = 0, masked = 1, mask_base = 0x2000\<rparr>,
                                          \<lparr>entry_nr = 1, masked = 1, mask_base = 0x2000\<rparr>]\<rparr>))
       \<lparr>mode := IGBUIO_MSIX_INTR_MODE\<rparr>"

definition ex_two_twice :: "s32 \<Rightarrow> s32 \<Rightarrow> kstate \<Rightarrow> int \<times> rte_uio_pci_dev \<times> kstate" where
  "ex_two_twice x y s =
     igbuio_set_interrupt_mask (fst (snd (igbuio_set_interrupt_mask ex_udev_two x s))) y
       (snd (snd (igbuio_set_interrupt_mask ex_udev_two x s)))"

text \<open>A device before its attach, a platform on which every stage succeeds, and platforms
  on which the MSI-X request, the registration, or both fail; a region table with two
  mapped slots.\<close>

definition ex_bare_dev :: pci_dev where
  "ex_bare_dev = ex_dev\<lparr>msi_list := []\<rparr>"

definition ex_env :: probe_env where
  "ex_env = \<lparr>kzalloc_ok = True, enable_device_ret = 0, set_dma_mask_ret = 0,
             request_regions_ret = 0, ioremap_ret = (\<lambda>a l. 0xFFFFC90000000000),
             enable_msix_ret = 0, msix_vector = (\<lambda>i. 42), msix_descs = [ex_desc],
             uio_register_ret = 0\<rparr>"

definition ex_env_no_msix :: probe_env where
  "ex_env_no_msix = ex_env\<lparr>enable_msix_ret := - 28\<rparr>"

definition ex_env_no_uio :: probe_env where
  "ex_env_no_uio = ex_env\<lparr>uio_register_ret := - 12\<rparr>"

definition ex_env_no_msix_no_uio :: probe_env where
  "ex_env_no_msix_no_uio = ex_env\<lparr>enable_msix_ret := - 28, uio_register_ret := - 12\<rparr>"

definition ex_uinfo :: uio_info where
  "ex_uinfo = (info (kzalloc_udev ex_dev))\<lparr>mem :=
     [zero_uio_mem\<lparr>internal_addr := 0xFFFFC90000000000\<rparr>, zero_uio_mem, zero_uio_mem,
      zero_uio_mem\<lparr>internal_addr := 0xFFFFC90000200000\<rparr>, zero_uio_mem]\<rparr>"

section \<open>Auxiliary facts\<close>

subsection \<open>Bits of words\<close>

lemma unset_bit_eq_self: "(unset_bit n m = m) = (\<not> bit m n)" for m :: "'a::len word"
  by (auto simp add: bit_eq_iff[where ?'a = "'a word"] bit_unset_bit_iff dest: bit_imp_le_length)

lemma set_bit_eq_self: "n < LENGTH('a) \<Longrightarrow> (set_bit n m = m) = bit m n" for m :: "'a::len word"
  by (auto simp add: bit_eq_iff[where ?'a = "'a word"] bit_set_bit_iff)

lemma self_eq_unset_bit: "(m = unset_bit n m) = (\<not> bit m n)" for m :: "'a::len word"
  using unset_bit_eq_self[of n m] by (simp add: eq_commute)

lemma self_eq_set_bit: "n < LENGTH('a) \<Longrightarrow> (m = set_bit n m) = bit m n" for m :: "'a::len word"
  using set_bit_eq_self[of n m] by (simp add: eq_commute)

lemma unset_bit_id: "\<not> bit m n \<Longrightarrow> unset_bit n m = m" for m :: "'a::len word"
  by (simp add: unset_bit_eq_self)

lemma set_bit_id: "bit m n \<Longrightarrow> set_bit n m = m" for m :: "'a::len word"
  by (auto simp add: bit_eq_iff[where ?'a = "'a word"] bit_set_bit_iff)

lemma unat_ucast_u16_u32: "unat (ucast (e::u16) :: u32) = unat e"
proof -
  have "unat e < 2 ^ 16" using unsigned_less[of e] by simp
  then have "unat e < 2 ^ 32" by simp
  then show ?thesis by (simp add: unsigned_ucast_eq take_bit_nat_eq_self)
qed

text \<open>The offset computed in \<^verbatim>\<open>unsigned\<close> arithmetic never wraps.\<close>

lemma msix_offset_no_wrap:
  "unat (ucast (e::u16) * PCI_MSIX_ENTRY_SIZE + PCI_MSIX_ENTRY_VECTOR_CTRL :: u32) = unat e * 16 + 12"
proof -
  have "unat e < 2 ^ 16" using unsigned_less[of e] by simp
  then show ?thesis
    by (simp add: unat_word_ariths unat_ucast_u16_u32 PCI_MSIX_ENTRY_SIZE_def
        PCI_MSIX_ENTRY_VECTOR_CTRL_def)
qed

lemma ctrl_addr_eq:
  "mask_base d + ucast (ucast (entry_nr d) * PCI_MSIX_ENTRY_SIZE + PCI_MSIX_ENTRY_VECTOR_CTRL :: u32)
     = spec_ctrl_addr d"
  unfolding spec_ctrl_addr_def using msix_offset_no_wrap[of "entry_nr d"]
  by (metis of_nat_unat)

lemma mask_word_and: "m AND NOT PCI_MSIX_ENTRY_CTRL_MASKBIT = unset_bit 0 m"
  by (simp add: PCI_MSIX_ENTRY_CTRL_MASKBIT_def unset_bit_eq_and_not)

lemma mask_word_or: "m OR PCI_MSIX_ENTRY_CTRL_MASKBIT = set_bit 0 m"
  by (simp add: PCI_MSIX_ENTRY_CTRL_MASKBIT_def set_bit_eq_or)

lemma intx_and: "old AND NOT PCI_COMMAND_INTX_DISABLE = unset_bit 10 old"
  by (simp add: PCI_COMMAND_INTX_DISABLE_def unset_bit_eq_and_not)

lemma intx_or: "old OR PCI_COMMAND_INTX_DISABLE = set_bit 10 old"
  by (simp add: PCI_COMMAND_INTX_DISABLE_def set_bit_eq_or)

lemma status_bit: "(st AND PCI_STATUS_INTERRUPT = 0) = (\<not> bit st 3)" for st :: u16
  using and_exp_eq_0_iff_not_bit[of st 3] by (simp add: PCI_STATUS_INTERRUPT_def)

lemma ucast_low: "(ucast (push_bit 16 (ucast (st::u16)) OR ucast (c::u16) :: u32) :: u16) = c"
  by (simp add: bit_eq_iff[where ?'a = "16 word"] bit_simps)

lemma ucast_high_nf:
  "(ucast (drop_bit 16 (push_bit 16 (ucast (st::u16)) :: u32) OR drop_bit 16 (ucast (c::u16))) :: u16)
     = st"
  by (auto simp add: bit_eq_iff[where ?'a = "16 word"] bit_simps dest: bit_imp_le_length)

lemma ucast_high:
  "(ucast (drop_bit 16 (push_bit 16 (ucast (st::u16)) OR ucast (c::u16) :: u32)) :: u16) = st"
  by (auto simp add: bit_eq_iff[where ?'a = "16 word"] bit_simps dest: bit_imp_le_length)

subsection \<open>The mask controller, one mode at a time\<close>

lemma msix_mask_irq_eq:
  "igbuio_msix_mask_irq d state s =
     (0, d\<lparr>masked := spec_mask_word state (masked d)\<rparr>,
      if bit (masked d) 0 = (state = 0) then s
      else s\<lparr>mmio := (mmio s)(spec_ctrl_addr d := spec_mask_word state (masked d)),
             trace := trace s @ spec_msix_accesses state d\<rparr>)"
  by (simp add: igbuio_msix_mask_irq_def Let_def ctrl_addr_eq mask_word_and mask_word_or
      spec_mask_word_def spec_msix_accesses_def unset_bit_eq_self set_bit_eq_self
      unset_bit_id set_bit_id writel_def readl_def log_event_def)

lemma msi_list_for_each_list:
  "fst (msi_list_for_each l state s) =
     map (\<lambda>d. d\<lparr>masked := spec_mask_word state (masked d)\<rparr>) l"
  by (induction l arbitrary: s) (simp_all add: msix_mask_irq_eq case_prod_beta)

lemma msi_list_for_each_trace:
  "trace (snd (msi_list_for_each l state s)) =
     trace s @ concat (map (spec_msix_accesses state) l)"
  by (induction l arbitrary: s)
    (simp_all add: msix_mask_irq_eq case_prod_beta spec_msix_accesses_def)

lemma msix_set_mask_eq:
  "mode udev = IGBUIO_MSIX_INTR_MODE \<Longrightarrow>
   igbuio_set_interrupt_mask udev state s =
     (0, udev\<lparr>pdev := (pdev udev)\<lparr>msi_list := fst (msi_list_for_each (msi_list (pdev udev)) state s)\<rparr>\<rparr>,
      snd (msi_list_for_each (msi_list (pdev udev)) state s))"
  by (simp add: igbuio_set_interrupt_mask_def case_prod_beta)

lemma legacy_set_mask_eq:
  assumes "mode udev = IGBUIO_LEGACY_INTR_MODE" and "cfg_read_ret s = 0"
  shows "igbuio_set_interrupt_mask udev state s =
     (0, udev,
      if bit (cfg s PCI_COMMAND) 10 = (state = 0)
      then s\<lparr>trace := trace s @ [Pci_read_config_dword PCI_COMMAND 0]\<rparr>
      else s\<lparr>cfg := (if cfg_write_ret s = 0
                     then (cfg s)(PCI_COMMAND := spec_cmd_word state (cfg s PCI_COMMAND))
                     else cfg s),
             trace := trace s @ [Pci_read_config_dword PCI_COMMAND 0,
                                 Pci_write_config_word PCI_COMMAND
                                   (spec_cmd_word state (cfg s PCI_COMMAND)) (cfg_write_ret s)]\<rparr>)"
  using assms
  by (simp add: igbuio_set_interrupt_mask_def pci_read_config_dword_def pci_write_config_word_def
      Let_def log_event_def ucast_low intx_and intx_or spec_cmd_word_def unset_bit_eq_self
      set_bit_eq_self self_eq_unset_bit self_eq_set_bit)

lemma sub_fields_of_register:
  "cfg_read_ret s = 0 \<Longrightarrow> spec_command s = cfg s PCI_COMMAND"
  "cfg_read_ret s = 0 \<Longrightarrow> spec_status s = cfg s (PCI_COMMAND + 2)"
  by (simp_all add: spec_command_def spec_status_def cmd_status_read_def
      pci_read_config_dword_def Let_def ucast_low ucast_high ucast_high_nf)

lemma legacy_set_mask_gen:
  assumes "mode udev = IGBUIO_LEGACY_INTR_MODE"
  shows "igbuio_set_interrupt_mask udev state s =
     (0, udev,
      if bit (spec_command s) 10 = (state = 0)
      then s\<lparr>trace := trace s @ [Pci_read_config_dword PCI_COMMAND (cfg_read_ret s)]\<rparr>
      else s\<lparr>cfg := (if cfg_write_ret s = 0
                     then (cfg s)(PCI_COMMAND := spec_cmd_word state (spec_command s))
                     else cfg s),
             trace := trace s @ [Pci_read_config_dword PCI_COMMAND (cfg_read_ret s),
                                 Pci_write_config_word PCI_COMMAND
                                   (spec_cmd_word state (spec_command s)) (cfg_write_ret s)]\<rparr>)"
proof -
  have rd: "pci_read_config_dword PCI_COMMAND s =
      (cfg_read_ret s, cmd_status_read s,
       s\<lparr>trace := trace s @ [Pci_read_config_dword PCI_COMMAND (cfg_read_ret s)]\<rparr>)"
    by (simp add: cmd_status_read_def pci_read_config_dword_def Let_def log_event_def)
  show ?thesis
    using assms
    by (simp add: igbuio_set_interrupt_mask_def rd pci_write_config_word_def Let_def
        log_event_def intx_and intx_or spec_cmd_word_def spec_command_def unset_bit_eq_self
        set_bit_eq_self self_eq_unset_bit self_eq_set_bit)
qed

subsection \<open>The handler and the control entry point\<close>

lemma irqcontrol_eq:
  "igbuio_pci_irqcontrol udev x s =
     (0, fst (snd (igbuio_set_interrupt_mask udev x
                     (s\<lparr>trace := trace s @ [Spin_lock_irqsave, PCI_LOCK]\<rparr>))),
      (snd (snd (igbuio_set_interrupt_mask udev x
                     (s\<lparr>trace := trace s @ [Spin_lock_irqsave, PCI_LOCK]\<rparr>))))
        \<lparr>trace := trace (snd (snd (igbuio_set_interrupt_mask udev x
                     (s\<lparr>trace := trace s @ [Spin_lock_irqsave, PCI_LOCK]\<rparr>)))) @
                  [PCI_UNLOCK, Spin_unlock_irqrestore]\<rparr>)"
  by (simp add: igbuio_pci_irqcontrol_def Let_def log_event_def case_prod_beta)

lemma msix_mask_irq_nonzero:
  "x \<noteq> 0 \<Longrightarrow> igbuio_msix_mask_irq d x s = igbuio_msix_mask_irq d 1 s"
  by (simp add: igbuio_msix_mask_irq_def)

lemma msi_list_for_each_nonzero:
  "x \<noteq> 0 \<Longrightarrow> msi_list_for_each l x s = msi_list_for_each l 1 s"
proof (induction l arbitrary: s)
  case Nil
  show ?case by simp
next
  case (Cons d l)
  show ?case
    by (simp only: msi_list_for_each.simps msix_mask_irq_nonzero [OF Cons.prems]
        Cons.IH [OF Cons.prems])
qed

lemma set_interrupt_mask_nonzero:
  "x \<noteq> 0 \<Longrightarrow> igbuio_set_interrupt_mask udev x s = igbuio_set_interrupt_mask udev 1 s"
  by (simp add: igbuio_set_interrupt_mask_def msi_list_for_each_nonzero [of x])

lemma set_interrupt_mask_ret: "fst (igbuio_set_interrupt_mask udev x s) = 0"
  by (simp add: igbuio_set_interrupt_mask_def case_prod_beta Let_def)

lemma bit_spec_mask_word_0: "bit (spec_mask_word x m) 0 = (x = 0)"
  by (simp add: spec_mask_word_def bit_unset_bit_iff bit_set_bit_iff)

lemma bit_spec_cmd_word_10: "bit (spec_cmd_word x m) 10 = (x = 0)"
  by (simp add: spec_cmd_word_def bit_unset_bit_iff bit_set_bit_iff)

subsection \<open>The loop over the descriptors as a whole\<close>

lemma msi_list_for_each_state:
  "snd (msi_list_for_each l state s) =
     s\<lparr>mmio := msix_mmio_after state l (mmio s),
       trace := trace s @ concat (map (spec_msix_accesses state) l)\<rparr>"
  by (induction l arbitrary: s)
    (simp_all add: msix_mask_irq_eq case_prod_beta spec_msix_accesses_def)

lemma msix_mmio_after_target:
  assumes "\<forall>d\<in>set l. spec_mask_word state (masked d) = f (spec_ctrl_addr d)"
      and "\<forall>d\<in>set l. bit (masked d) 0 = (state = 0) \<longrightarrow> m (spec_ctrl_addr d) = f (spec_ctrl_addr d)"
  shows "msix_mmio_after state l m =
           (\<lambda>a. if a \<in> spec_ctrl_addr ` set l then f a else m a)"
  using assms
proof (induction l arbitrary: m)
  case Nil
  show ?case by simp
next
  case (Cons d l)
  let ?m' = "if bit (masked d) 0 = (state = 0) then m
             else m(spec_ctrl_addr d := spec_mask_word state (masked d))"
  have here: "?m' (spec_ctrl_addr d) = f (spec_ctrl_addr d)"
    using Cons.prems by simp
  have "\<forall>e\<in>set l. bit (masked e) 0 = (state = 0) \<longrightarrow>
          ?m' (spec_ctrl_addr e) = f (spec_ctrl_addr e)"
    using Cons.prems by simp
  moreover have "\<forall>e\<in>set l. spec_mask_word state (masked e) = f (spec_ctrl_addr e)"
    using Cons.prems by simp
  ultimately have "msix_mmio_after state l ?m' =
      (\<lambda>a. if a \<in> spec_ctrl_addr ` set l then f a else ?m' a)"
    by (rule Cons.IH [rotated])
  then show ?case
    using here by (auto simp add: fun_eq_iff)
qed

lemma msix_settled:
  assumes "\<forall>d\<in>set l. bit (masked d) 0 = (state = 0)"
  shows "msix_mmio_after state l m = m"
    and "concat (map (spec_msix_accesses state) l) = []"
  using assms by (induction l arbitrary: m) (simp_all add: spec_msix_accesses_def)

lemma spec_mask_word_idem:
  "(x = 0) = (y = 0) \<Longrightarrow> spec_mask_word y (spec_mask_word x m) = spec_mask_word x m"
  by (auto simp add: spec_mask_word_def bit_eq_iff[where ?'a = "32 word"] bit_unset_bit_iff
      bit_set_bit_iff)

lemma unset_after_set_bit: "unset_bit n (set_bit n m) = unset_bit n m" for m :: "'a::len word"
  by (auto simp add: bit_eq_iff[where ?'a = "'a word"] bit_unset_bit_iff bit_set_bit_iff)

lemma hw_writes_msix_le:
  "length (hw_writes (concat (map (spec_msix_accesses state) l))) \<le> length l"
  by (induction l) (simp_all add: hw_writes_def spec_msix_accesses_def)

lemma printk_msix: "filter is_printk (concat (map (spec_msix_accesses state) l)) = []"
  by (induction l) (simp_all add: spec_msix_accesses_def)

lemma hw_writes_append: "hw_writes (a @ b) = hw_writes a @ hw_writes b"
  by (simp add: hw_writes_def)

subsection \<open>Mask, then unmask\<close>

lemma spec_ctrl_addr_masked [simp]: "spec_ctrl_addr (d\<lparr>masked := v\<rparr>) = spec_ctrl_addr d"
  by (simp add: spec_ctrl_addr_def)

lemma round_trip_legacy:
  assumes first: "igbuio_set_interrupt_mask udev 0 s = (r1, u1, s1)"
      and second: "igbuio_set_interrupt_mask u1 x s1 = (r2, u2, s2)"
      and x: "x \<noteq> 0"
      and m: "mode udev = IGBUIO_LEGACY_INTR_MODE"
      and r: "cfg_read_ret s = 0" and w: "cfg_write_ret s = 0"
  shows "cfg s1 = (cfg s)(PCI_COMMAND := set_bit 10 (cfg s PCI_COMMAND))"
    and "cfg s2 = (cfg s)(PCI_COMMAND := unset_bit 10 (cfg s PCI_COMMAND))"
    and "mmio s1 = mmio s" and "mmio s2 = mmio s" and "u1 = udev" and "u2 = udev"
proof -
  show u1: "u1 = udev" and c1: "cfg s1 = (cfg s)(PCI_COMMAND := set_bit 10 (cfg s PCI_COMMAND))"
    and m1: "mmio s1 = mmio s"
    using first w
    by (auto simp add: legacy_set_mask_eq [OF m r] spec_cmd_word_def set_bit_id
        split: if_splits)
  have r1: "cfg_read_ret s1 = 0" and w1: "cfg_write_ret s1 = 0"
    using first r w by (auto simp add: legacy_set_mask_eq [OF m r] split: if_splits)
  have b: "bit (cfg s1 PCI_COMMAND) 10"
    by (simp add: c1 bit_set_bit_iff)
  have second': "igbuio_set_interrupt_mask udev x s1 = (r2, u2, s2)"
    using second u1 by simp
  show "u2 = udev" and "cfg s2 = (cfg s)(PCI_COMMAND := unset_bit 10 (cfg s PCI_COMMAND))"
    and "mmio s2 = mmio s"
    using second' x b w1 m1
    by (auto simp add: legacy_set_mask_eq [OF m r1] spec_cmd_word_def c1 unset_after_set_bit)
qed

lemma round_trip_msix:
  assumes first: "igbuio_set_interrupt_mask udev 0 s = (r1, u1, s1)"
      and second: "igbuio_set_interrupt_mask u1 x s1 = (r2, u2, s2)"
      and x: "x \<noteq> 0"
      and m: "mode udev = IGBUIO_MSIX_INTR_MODE"
      and mirror: "\<forall>d\<in>set (msi_list (pdev udev)). mmio s (spec_ctrl_addr d) = masked d"
  shows "mmio s1 = (\<lambda>a. if a \<in> spec_ctrl_addr ` set (msi_list (pdev udev))
                         then set_bit 0 (mmio s a) else mmio s a)"
    and "mmio s2 = (\<lambda>a. if a \<in> spec_ctrl_addr ` set (msi_list (pdev udev))
                         then unset_bit 0 (mmio s a) else mmio s a)"
    and "cfg s1 = cfg s" and "cfg s2 = cfg s"
    and "u2 = udev\<lparr>pdev := (pdev udev)\<lparr>msi_list :=
           map (\<lambda>d. d\<lparr>masked := unset_bit 0 (masked d)\<rparr>) (msi_list (pdev udev))\<rparr>\<rparr>"
proof -
  let ?l = "msi_list (pdev udev)"
  let ?l1 = "map (\<lambda>d. d\<lparr>masked := set_bit 0 (masked d)\<rparr>) ?l"
  have u1: "u1 = udev\<lparr>pdev := (pdev udev)\<lparr>msi_list := ?l1\<rparr>\<rparr>"
    and s1: "s1 = s\<lparr>mmio := msix_mmio_after 0 ?l (mmio s),
                     trace := trace s @ concat (map (spec_msix_accesses 0) ?l)\<rparr>"
    using first
    by (simp_all add: msix_set_mask_eq [OF m] msi_list_for_each_list msi_list_for_each_state
        spec_mask_word_def)
  have m1: "mode u1 = IGBUIO_MSIX_INTR_MODE" and l1: "msi_list (pdev u1) = ?l1"
    using u1 m by simp_all
  have "msix_mmio_after 0 ?l (mmio s) =
          (\<lambda>a. if a \<in> spec_ctrl_addr ` set ?l then set_bit 0 (mmio s a) else mmio s a)"
    using mirror
    by (intro msix_mmio_after_target) (simp_all add: spec_mask_word_def set_bit_id)
  then show a1: "mmio s1 = (\<lambda>a. if a \<in> spec_ctrl_addr ` set ?l
                               then set_bit 0 (mmio s a) else mmio s a)"
    by (simp add: s1)
  show "cfg s1 = cfg s"
    by (simp add: s1)
  have u2: "u2 = u1\<lparr>pdev := (pdev u1)\<lparr>msi_list :=
              map (\<lambda>d. d\<lparr>masked := spec_mask_word x (masked d)\<rparr>) ?l1\<rparr>\<rparr>"
    and s2: "s2 = s1\<lparr>mmio := msix_mmio_after x ?l1 (mmio s1),
                      trace := trace s1 @ concat (map (spec_msix_accesses x) ?l1)\<rparr>"
    using second
    by (simp_all only: msix_set_mask_eq [OF m1] msi_list_for_each_list msi_list_for_each_state
        l1 prod.inject)
  show "u2 = udev\<lparr>pdev := (pdev udev)\<lparr>msi_list :=
           map (\<lambda>d. d\<lparr>masked := unset_bit 0 (masked d)\<rparr>) ?l\<rparr>\<rparr>"
    using x by (simp add: u2 u1 spec_mask_word_def unset_after_set_bit comp_def)
  show "cfg s2 = cfg s"
    by (simp add: s2 s1)
  have img: "spec_ctrl_addr ` set ?l1 = spec_ctrl_addr ` set ?l"
    by (simp add: image_image)
  have "msix_mmio_after x ?l1 (mmio s1) =
          (\<lambda>a. if a \<in> spec_ctrl_addr ` set ?l1 then unset_bit 0 (mmio s a) else mmio s1 a)"
    using mirror x
    by (intro msix_mmio_after_target)
      (simp_all add: spec_mask_word_def unset_after_set_bit bit_set_bit_iff)
  then show "mmio s2 = (\<lambda>a. if a \<in> spec_ctrl_addr ` set ?l
                               then unset_bit 0 (mmio s a) else mmio s a)"
    unfolding img by (simp add: s2 a1 fun_eq_iff)
qed

subsection \<open>What the mask controller never does\<close>

lemma set_mask_frame:
  "filter is_printk (trace (snd (snd (igbuio_set_interrupt_mask udev x s)))) =
     filter is_printk (trace s)"
  "cfg_write_ret s \<noteq> 0 \<Longrightarrow> cfg (snd (snd (igbuio_set_interrupt_mask udev x s))) = cfg s"
  "mode (fst (snd (igbuio_set_interrupt_mask udev x s))) = mode udev"
  "info (fst (snd (igbuio_set_interrupt_mask udev x s))) = info udev"
  "mode udev = IGBUIO_LEGACY_INTR_MODE \<Longrightarrow>
     fst (snd (igbuio_set_interrupt_mask udev x s)) = udev"
  by (cases "mode udev";
      simp add: igbuio_set_interrupt_mask_def msi_list_for_each_state printk_msix
        pci_read_config_dword_def pci_write_config_word_def Let_def log_event_def
        case_prod_beta)+

subsection \<open>The probe, stage by stage\<close>

lemma msix_accesses_are_mask_accesses:
  "\<forall>e\<in>set (concat (map (spec_msix_accesses x) l)). is_mask_access e"
  by (induction l) (simp_all add: spec_msix_accesses_def)

lemma mask_log_trace:
  "trace (snd (snd (igbuio_set_interrupt_mask udev x s))) = trace s @ mask_log udev x s"
  by (cases "mode udev";
      simp add: mask_log_def igbuio_set_interrupt_mask_def msi_list_for_each_state
        pci_read_config_dword_def pci_write_config_word_def Let_def log_event_def
        case_prod_beta)

lemma mask_log_accesses: "\<forall>e\<in>set (mask_log udev x s). is_mask_access e"
  using msix_accesses_are_mask_accesses [of x "msi_list (pdev udev)"]
  by (cases "mode udev";
      simp add: mask_log_def igbuio_set_interrupt_mask_def msi_list_for_each_state
        pci_read_config_dword_def pci_write_config_word_def Let_def log_event_def
        case_prod_beta)

lemma mask_accesses_quiet:
  assumes "\<forall>e\<in>set tr. is_mask_access e"
  shows "acquired tr = []" and "released tr = []" and "filter is_msix_request tr = []"
proof -
  have "acquires e = [] \<and> releases e = [] \<and> \<not> is_msix_request e" if "is_mask_access e" for e
    using that by (cases e) simp_all
  with assms show "acquired tr = []" and "released tr = []" and "filter is_msix_request tr = []"
    by (induction tr) (simp_all add: acquired_def released_def)
qed

lemma acquired_append: "acquired (a @ b) = acquired a @ acquired b"
  by (simp add: acquired_def)

lemma released_append: "released (a @ b) = released a @ released b"
  by (simp add: released_def)

lemma release_iomem_loop_eq:
  "length (mem uinfo) = MAX_UIO_MAPS \<Longrightarrow>
   release_iomem_loop i uinfo s =
     s\<lparr>trace := trace s @
        map Iounmap (filter (\<lambda>p. p \<noteq> 0) (map internal_addr (drop i (mem uinfo))))\<rparr>"
proof (induction i uinfo s rule: release_iomem_loop.induct)
  case (1 i uinfo s)
  show ?case
  proof (cases "i < MAX_UIO_MAPS")
    case True
    then have d: "drop i (mem uinfo) = (mem uinfo ! i) # drop (i + 1) (mem uinfo)"
      using "1.prems" by (simp add: Cons_nth_drop_Suc)
    show ?thesis
      using True "1.IH" [OF True "1.prems"]
      by (subst release_iomem_loop.simps) (simp add: d log_event_def)
  next
    case False
    then show ?thesis
      using "1.prems" by (subst release_iomem_loop.simps) simp
  qed
qed

lemma release_iomem_eq:
  "length (mem uinfo) = MAX_UIO_MAPS \<Longrightarrow>
   igbuio_pci_release_iomem uinfo s =
     s\<lparr>trace := trace s @
        map Iounmap (filter (\<lambda>p. p \<noteq> 0) (map internal_addr (mem uinfo)))\<rparr>"
  by (simp add: igbuio_pci_release_iomem_def release_iomem_loop_eq)

lemma fail_labels:
  "fail_free s = (- ENODEV, None, s\<lparr>trace := trace s @ [Kfree]\<rparr>)"
  "fail_disable s = (- ENODEV, None, s\<lparr>trace := trace s @ [Pci_disable_device, Kfree]\<rparr>)"
  "fail_release_regions s =
     (- ENODEV, None, s\<lparr>trace := trace s @ [Pci_release_regions, Pci_disable_device, Kfree]\<rparr>)"
  by (simp_all add: fail_free_def fail_disable_def fail_release_regions_def log_event_def)

lemma fail_release_iomem_eq:
  "length (mem (info udev)) = MAX_UIO_MAPS \<Longrightarrow>
   fail_release_iomem udev s =
     (- ENODEV, None,
      s\<lparr>trace := trace s @
         map Iounmap (filter (\<lambda>p. p \<noteq> 0) (map internal_addr (mem (info udev)))) @
         (if mode udev = IGBUIO_MSIX_INTR_MODE then [Pci_disable_msix] else []) @
         [Pci_release_regions, Pci_disable_device, Kfree]\<rparr>)"
  by (simp add: fail_release_iomem_def release_iomem_eq fail_labels log_event_def Let_def)

lemma probe_early:
  "\<not> kzalloc_ok env \<Longrightarrow>
     igbuio_pci_probe env dev s = Some (- ENOMEM, None, s\<lparr>trace := trace s @ [Kzalloc False]\<rparr>)"
  "kzalloc_ok env \<Longrightarrow> enable_device_ret env \<noteq> 0 \<Longrightarrow>
     igbuio_pci_probe env dev s =
       Some (- ENODEV, None,
             s\<lparr>trace := trace s @ [Kzalloc True, Pci_enable_device (enable_device_ret env),
                                   Printk Log_cannot_enable, Kfree]\<rparr>)"
  "kzalloc_ok env \<Longrightarrow> enable_device_ret env = 0 \<Longrightarrow> set_dma_mask_ret env \<noteq> 0 \<Longrightarrow>
     igbuio_pci_probe env dev s =
       Some (- ENODEV, None,
             s\<lparr>trace := trace s @ [Kzalloc True, Pci_enable_device 0,
                                   Pci_set_dma_mask 0xffffffff (set_dma_mask_ret env),
                                   Printk Log_cannot_set_dma, Pci_disable_device, Kfree]\<rparr>)"
  "kzalloc_ok env \<Longrightarrow> enable_device_ret env = 0 \<Longrightarrow> set_dma_mask_ret env = 0 \<Longrightarrow>
   request_regions_ret env \<noteq> 0 \<Longrightarrow>
     igbuio_pci_probe env dev s =
       Some (- ENODEV, None,
             s\<lparr>trace := trace s @ [Kzalloc True, Pci_enable_device 0,
                                   Pci_set_dma_mask 0xffffffff 0,
                                   Pci_request_regions ''igb_uio'' (request_regions_ret env),
                                   Printk Log_cannot_request_regions,
                                   Pci_disable_device, Kfree]\<rparr>)"
  by (simp_all add: igbuio_pci_probe_def Let_def log_event_def fail_labels)

lemma probe_iomem_fails:
  assumes "kzalloc_ok env" "enable_device_ret env = 0" "set_dma_mask_ret env = 0"
    "request_regions_ret env = 0"
  shows "resource_start dev 0 = 0 \<or> resource_len dev 0 = 0 \<Longrightarrow>
     igbuio_pci_probe env dev s =
       Some (- ENODEV, None,
             s\<lparr>trace := trace s @ [Kzalloc True, Pci_enable_device 0,
                                   Pci_set_dma_mask 0xffffffff 0,
                                   Pci_request_regions ''igb_uio'' 0, Pci_set_master,
                                   Pci_release_regions, Pci_disable_device, Kfree]\<rparr>)"
    and "resource_start dev 0 \<noteq> 0 \<Longrightarrow> resource_len dev 0 \<noteq> 0 \<Longrightarrow>
         ioremap_ret env (resource_start dev 0) (resource_len dev 0) = 0 \<Longrightarrow>
     igbuio_pci_probe env dev s =
       Some (- ENODEV, None,
             s\<lparr>trace := trace s @ [Kzalloc True, Pci_enable_device 0,
                                   Pci_set_dma_mask 0xffffffff 0,
                                   Pci_request_regions ''igb_uio'' 0, Pci_set_master,
                                   Ioremap (resource_start dev 0) (resource_len dev 0) 0,
                                   Pci_release_regions, Pci_disable_device, Kfree]\<rparr>)"
  using assms
  by (simp_all add: igbuio_pci_probe_def igbuio_pci_setup_iomem_def Let_def log_event_def
      fail_labels)

lemma probe_ready_eq:
  assumes "probe_ready env dev"
  shows "igbuio_pci_probe env dev s =
     Some (probe_register env
             (probe_set_irq (fst (probe_try_msix env (ready_udev env dev)
                                    (s\<lparr>trace := trace s @ ready_log env dev\<rparr>))))
             (snd (probe_try_msix env (ready_udev env dev)
                     (s\<lparr>trace := trace s @ ready_log env dev\<rparr>))))"
  using assms
  by (simp add: probe_ready_def igbuio_pci_probe_def igbuio_pci_setup_iomem_def
      probe_fill_info_def Let_def log_event_def case_prod_beta ready_udev_def ready_log_def
      kzalloc_udev_def MAX_UIO_MAPS_def)

lemma probe_try_msix_eq:
  "probe_try_msix env udev s =
     (if enable_msix_ret env = 0
      then (udev\<lparr>pdev := (pdev udev)\<lparr>msi_list := msix_descs env\<rparr>,
                 msix_entries := [(msix_entries udev ! 0)\<lparr>entry := 0,
                                                          vector := msix_vector env 0\<rparr>],
                 mode := IGBUIO_MSIX_INTR_MODE\<rparr>,
            s\<lparr>trace := trace s @ [Pci_enable_msix [0] 1 0]\<rparr>)
      else (udev\<lparr>msix_entries := [(msix_entries udev ! 0)\<lparr>entry := 0\<rparr>]\<rparr>,
            s\<lparr>trace := trace s @ [Pci_enable_msix [0] 1 (enable_msix_ret env),
                                  Pci_disable_msix, Printk Log_msix_fail]\<rparr>))"
  by (simp add: probe_try_msix_def igbuio_intr_mode_preferred_def pci_enable_msix_def
      IGBUIO_NUM_MSI_VECTORS_def Let_def log_event_def)

lemma probe_register_eq:
  assumes "length (mem (info udev)) = MAX_UIO_MAPS"
  shows "fst (probe_register env udev s) = (if uio_register_ret env \<noteq> 0 then - ENODEV else 0)"
    and "fst (snd (probe_register env udev s)) =
           (if uio_register_ret env \<noteq> 0 then None
            else Some (fst (snd (igbuio_pci_irqcontrol udev 0
                                   (s\<lparr>trace := trace s @ [Pci_set_drvdata]\<rparr>)))))"
    and "trace (snd (snd (probe_register env udev s))) =
           trace s @ [Pci_set_drvdata, Spin_lock_irqsave, PCI_LOCK] @
           mask_log udev 0 (s\<lparr>trace := trace s @ [Pci_set_drvdata, Spin_lock_irqsave, PCI_LOCK]\<rparr>) @
           [PCI_UNLOCK, Spin_unlock_irqrestore, Uio_register_device (uio_register_ret env)] @
           (if uio_register_ret env \<noteq> 0
            then map Iounmap (filter (\<lambda>p. p \<noteq> 0) (map internal_addr (mem (info udev)))) @
                 (if mode udev = IGBUIO_MSIX_INTR_MODE then [Pci_disable_msix] else []) @
                 [Pci_release_regions, Pci_disable_device, Kfree]
            else [Printk (Log_registered (irq (info udev)))])"
  using assms
  by (simp_all add: probe_register_def Let_def log_event_def case_prod_beta irqcontrol_eq
      set_mask_frame fail_release_iomem_eq mask_log_trace)

lemma chosen_udev_eq:
  "probe_set_irq (fst (probe_try_msix env (ready_udev env dev) s)) = chosen_udev env dev"
  by (simp add: probe_try_msix_eq probe_set_irq_def chosen_udev_def ready_udev_def
      IGBUIO_NUM_MSI_VECTORS_def)

lemma msix_log_eq:
  "snd (probe_try_msix env udev s) = s\<lparr>trace := trace s @ msix_log env\<rparr>"
  by (simp add: probe_try_msix_eq msix_log_def)

lemma chosen_mem:
  "length (mem (info (chosen_udev env dev))) = MAX_UIO_MAPS"
  "probe_ready env dev \<Longrightarrow>
     map Iounmap (filter (\<lambda>p. p \<noteq> 0) (map internal_addr (mem (info (chosen_udev env dev))))) =
       [Iounmap (ioremap_ret env (resource_start dev 0) (resource_len dev 0))]"
  by (simp_all add: chosen_udev_def ready_udev_def probe_ready_def MAX_UIO_MAPS_def
      zero_uio_mem_def eval_nat_numeral)

lemma chosen_mode:
  "mode (chosen_udev env dev) =
     (if enable_msix_ret env = 0 then IGBUIO_MSIX_INTR_MODE else IGBUIO_LEGACY_INTR_MODE)"
  by (simp add: chosen_udev_def ready_udev_def)

lemma probe_ready_result:
  assumes "probe_ready env dev"
  shows "probe_status env dev s = Some (if uio_register_ret env \<noteq> 0 then - ENODEV else 0)"
    and "uio_register_ret env \<noteq> 0 \<Longrightarrow> probe_ctx env dev s = None"
    and "uio_register_ret env = 0 \<Longrightarrow>
           map_option mode (probe_ctx env dev s) = Some (mode (chosen_udev env dev))
         \<and> map_option info (probe_ctx env dev s) = Some (info (chosen_udev env dev))"
    and "\<exists>M. (\<forall>e\<in>set M. is_mask_access e)
           \<and> probe_log env dev s =
               ready_log env dev @ msix_log env @ [Pci_set_drvdata, Spin_lock_irqsave, PCI_LOCK] @
               M @ [PCI_UNLOCK, Spin_unlock_irqrestore,
                    Uio_register_device (uio_register_ret env)] @ unwind_log env dev"
proof -
  note e = probe_ready_eq [OF assms] chosen_udev_eq msix_log_eq
  note r = probe_register_eq [OF chosen_mem(1)]
  show "probe_status env dev s = Some (if uio_register_ret env \<noteq> 0 then - ENODEV else 0)"
    by (simp add: probe_status_def e r)
  show "probe_ctx env dev s = None" if "uio_register_ret env \<noteq> 0"
    using that by (simp add: probe_ctx_def e case_prod_beta r)
  show "map_option mode (probe_ctx env dev s) = Some (mode (chosen_udev env dev))
         \<and> map_option info (probe_ctx env dev s) = Some (info (chosen_udev env dev))"
    if "uio_register_ret env = 0"
    using that by (simp add: probe_ctx_def e case_prod_beta r irqcontrol_eq set_mask_frame)
  let ?S = "s\<lparr>trace := (trace s @ ready_log env dev @ msix_log env) @
                          [Pci_set_drvdata, Spin_lock_irqsave, PCI_LOCK]\<rparr>"
  let ?M = "mask_log (chosen_udev env dev) 0 ?S"
  have "probe_log env dev s =
          ready_log env dev @ msix_log env @ [Pci_set_drvdata, Spin_lock_irqsave, PCI_LOCK] @
          ?M @ [PCI_UNLOCK, Spin_unlock_irqrestore,
                Uio_register_device (uio_register_ret env)] @ unwind_log env dev"
    by (simp add: probe_log_def e case_prod_beta r chosen_mem(2) [OF assms] chosen_mode
        unwind_log_def)
  then show "\<exists>M. (\<forall>e\<in>set M. is_mask_access e)
           \<and> probe_log env dev s =
               ready_log env dev @ msix_log env @ [Pci_set_drvdata, Spin_lock_irqsave, PCI_LOCK] @
               M @ [PCI_UNLOCK, Spin_unlock_irqrestore,
                    Uio_register_device (uio_register_ret env)] @ unwind_log env dev"
    using mask_log_accesses by blast
qed

lemma first_failure_iff:
  "(first_failure env dev = None) = (probe_ready env dev \<and> uio_register_ret env = 0)"
  "(first_failure env dev = Some St_register) = (probe_ready env dev \<and> uio_register_ret env \<noteq> 0)"
  "(first_failure env dev = Some St_alloc) = (\<not> kzalloc_ok env)"
  by (auto simp add: first_failure_def probe_ready_def)

lemma probe_not_ready:
  assumes "\<not> probe_ready env dev"
  shows "probe_status env dev s = Some (if \<not> kzalloc_ok env then - ENOMEM else - ENODEV)"
    and "probe_ctx env dev s = None"
    and "filter is_msix_request (probe_log env dev s) = []"
    and "released (probe_log env dev s) = rev (acquired (probe_log env dev s))"
proof -
  consider "\<not> kzalloc_ok env"
    | "kzalloc_ok env" "enable_device_ret env \<noteq> 0"
    | "kzalloc_ok env" "enable_device_ret env = 0" "set_dma_mask_ret env \<noteq> 0"
    | "kzalloc_ok env" "enable_device_ret env = 0" "set_dma_mask_ret env = 0"
      "request_regions_ret env \<noteq> 0"
    | "kzalloc_ok env" "enable_device_ret env = 0" "set_dma_mask_ret env = 0"
      "request_regions_ret env = 0" "resource_start dev 0 = 0 \<or> resource_len dev 0 = 0"
    | "kzalloc_ok env" "enable_device_ret env = 0" "set_dma_mask_ret env = 0"
      "request_regions_ret env = 0" "resource_start dev 0 \<noteq> 0" "resource_len dev 0 \<noteq> 0"
      "ioremap_ret env (resource_start dev 0) (resource_len dev 0) = 0"
    using assms unfolding probe_ready_def by blast
  then have "probe_status env dev s = Some (if \<not> kzalloc_ok env then - ENOMEM else - ENODEV)
      \<and> probe_ctx env dev s = None
      \<and> filter is_msix_request (probe_log env dev s) = []
      \<and> released (probe_log env dev s) = rev (acquired (probe_log env dev s))"
  proof cases
    case 1
    then show ?thesis
      by (simp add: probe_early probe_status_def probe_ctx_def probe_log_def acquired_def
          released_def)
  next
    case 2
    then show ?thesis
      by (simp add: probe_early probe_status_def probe_ctx_def probe_log_def acquired_def
          released_def)
  next
    case 3
    then show ?thesis
      by (simp add: probe_early probe_status_def probe_ctx_def probe_log_def acquired_def
          released_def)
  next
    case 4
    then show ?thesis
      by (simp add: probe_early probe_status_def probe_ctx_def probe_log_def acquired_def
          released_def)
  next
    case 5
    then show ?thesis
      by (simp add: probe_iomem_fails(1) probe_status_def probe_ctx_def probe_log_def
          acquired_def released_def)
  next
    case 6
    then show ?thesis
      by (simp add: probe_iomem_fails(2) probe_status_def probe_ctx_def probe_log_def
          acquired_def released_def)
  qed
  then show "probe_status env dev s = Some (if \<not> kzalloc_ok env then - ENOMEM else - ENODEV)"
    and "probe_ctx env dev s = None"
    and "filter is_msix_request (probe_log env dev s) = []"
    and "released (probe_log env dev s) = rev (acquired (probe_log env dev s))"
    by simp_all
qed

lemma probe_ready_resources:
  assumes "probe_ready env dev"
  shows "acquired (probe_log env dev s) =
           [Res_context, Res_device, Res_regions,
            Res_iomem (ioremap_ret env (resource_start dev 0) (resource_len dev 0)), Res_msix]"
    and "released (probe_log env dev s) =
           (if enable_msix_ret env = 0 then [] else [Res_msix]) @
           (if uio_register_ret env \<noteq> 0
            then Res_iomem (ioremap_ret env (resource_start dev 0) (resource_len dev 0)) #
                 (if enable_msix_ret env = 0 then [Res_msix] else []) @
                 [Res_regions, Res_device, Res_context]
            else [])"
    and "filter is_msix_request (probe_log env dev s) =
           [Pci_enable_msix [0] 1 (enable_msix_ret env)]"
proof -
  obtain M where M: "\<forall>e\<in>set M. is_mask_access e"
    and l: "probe_log env dev s =
               ready_log env dev @ msix_log env @ [Pci_set_drvdata, Spin_lock_irqsave, PCI_LOCK] @
               M @ [PCI_UNLOCK, Spin_unlock_irqrestore,
                    Uio_register_device (uio_register_ret env)] @ unwind_log env dev"
    using probe_ready_result(4) [OF assms] by blast
  note q = mask_accesses_quiet [OF M]
  have p: "ioremap_ret env (resource_start dev 0) (resource_len dev 0) \<noteq> 0"
    using assms by (simp add: probe_ready_def)
  show "acquired (probe_log env dev s) =
           [Res_context, Res_device, Res_regions,
            Res_iomem (ioremap_ret env (resource_start dev 0) (resource_len dev 0)), Res_msix]"
    unfolding l acquired_append q
    by (simp add: acquired_def ready_log_def msix_log_def unwind_log_def p)
  show "released (probe_log env dev s) =
           (if enable_msix_ret env = 0 then [] else [Res_msix]) @
           (if uio_register_ret env \<noteq> 0
            then Res_iomem (ioremap_ret env (resource_start dev 0) (resource_len dev 0)) #
                 (if enable_msix_ret env = 0 then [Res_msix] else []) @
                 [Res_regions, Res_device, Res_context]
            else [])"
    unfolding l released_append q
    by (simp add: released_def ready_log_def msix_log_def unwind_log_def)
  show "filter is_msix_request (probe_log env dev s) =
           [Pci_enable_msix [0] 1 (enable_msix_ret env)]"
    unfolding l filter_append q
    by (simp add: ready_log_def msix_log_def unwind_log_def)
qed

lemma ex_ready:
  "probe_ready ex_env ex_bare_dev" "probe_ready ex_env_no_msix ex_bare_dev"
  "probe_ready ex_env_no_uio ex_bare_dev" "probe_ready ex_env_no_msix_no_uio ex_bare_dev"
  by (simp_all add: probe_ready_def ex_env_def ex_env_no_msix_def ex_env_no_uio_def
      ex_env_no_msix_no_uio_def ex_bare_dev_def ex_dev_def)

lemma ex_first_failure:
  "first_failure ex_env ex_bare_dev = None"
  "first_failure ex_env_no_msix ex_bare_dev = None"
  "first_failure ex_env_no_uio ex_bare_dev = Some St_register"
  "first_failure ex_env_no_msix_no_uio ex_bare_dev = Some St_register"
  "first_failure (ex_env\<lparr>kzalloc_ok := False\<rparr>) ex_bare_dev = Some St_alloc"
  by (simp_all add: first_failure_iff ex_ready)
    (simp_all add: ex_env_def ex_env_no_msix_def ex_env_no_uio_def ex_env_no_msix_no_uio_def)

lemma round_trip_legacy_write_fault:
  assumes first: "igbuio_set_interrupt_mask udev 0 s = (r1, u1, s1)"
      and second: "igbuio_set_interrupt_mask u1 x s1 = (r2, u2, s2)"
      and m: "mode udev = IGBUIO_LEGACY_INTR_MODE"
      and w: "cfg_write_ret s \<noteq> 0"
  shows "cfg s1 = cfg s" and "cfg s2 = cfg s" and "mmio s1 = mmio s" and "mmio s2 = mmio s"
    and "u2 = udev"
proof -
  have 1: "u1 = udev \<and> cfg s1 = cfg s \<and> mmio s1 = mmio s \<and> cfg_write_ret s1 = cfg_write_ret s"
    using first w
    by (auto simp add: legacy_set_mask_gen [OF m] split: if_splits)
  then have second': "igbuio_set_interrupt_mask udev x s1 = (r2, u2, s2)"
    and w1: "cfg_write_ret s1 \<noteq> 0"
    using second w by simp_all
  have 2: "u2 = udev \<and> cfg s2 = cfg s1 \<and> mmio s2 = mmio s1"
    using second' w1
    by (auto simp add: legacy_set_mask_gen [OF m] split: if_splits)
  show "cfg s1 = cfg s" and "cfg s2 = cfg s" and "mmio s1 = mmio s" and "mmio s2 = mmio s"
    and "u2 = udev"
    using 1 2 by simp_all
qed

section \<open>The claims\<close>

text \<open>
  C1. In MSI-X mode \<^verbatim>\<open>igbuio_set_interrupt_mask\<close> visits every descriptor of the device's
  msi list, in order. For a descriptor with entry number \<open>e\<close> the vector-control word lies
  \<open>e * 16 + 12\<close> bytes above the table base and its mask bit is bit 0; the wanted bit is
  0 when the request enables (\<open>state \<noteq> 0\<close>) and 1 when it disables. A descriptor whose
  mirror already has the wanted bit costs no access; any other costs the write of the new
  word, then a read of the table base, and only then the store to the mirror. The call
  returns 0 and leaves every mirror with the wanted bit and its other bits as they were.
\<close>

theorem C1_msix_set_mask:
  assumes "mode udev = IGBUIO_MSIX_INTR_MODE"
  shows "fst (igbuio_set_interrupt_mask udev state s) = 0
       \<and> fst (snd (igbuio_set_interrupt_mask udev state s)) =
           udev\<lparr>pdev := (pdev udev)\<lparr>msi_list :=
             map (\<lambda>d. d\<lparr>masked := spec_mask_word state (masked d)\<rparr>) (msi_list (pdev udev))\<rparr>\<rparr>
       \<and> trace (snd (snd (igbuio_set_interrupt_mask udev state s))) =
           trace s @ concat (map (spec_msix_accesses state) (msi_list (pdev udev)))"
  using assms
  by (simp add: msix_set_mask_eq msi_list_for_each_list msi_list_for_each_trace)

theorem C1_msix_set_mask_witness:
  "mode (ex_udev IGBUIO_MSIX_INTR_MODE) = IGBUIO_MSIX_INTR_MODE
   \<and> trace (snd (snd (igbuio_set_interrupt_mask (ex_udev IGBUIO_MSIX_INTR_MODE) 0 ex_kstate))) =
       [Writel 1 0x203C, Readl 0x2000, Set_masked 3 1]
   \<and> map masked (msi_list (pdev (fst (snd
        (igbuio_set_interrupt_mask (ex_udev IGBUIO_MSIX_INTR_MODE) 0 ex_kstate))))) = [1]
   \<and> trace (snd (snd (igbuio_set_interrupt_mask (ex_udev IGBUIO_MSIX_INTR_MODE) 1 ex_kstate))) = []"
proof -
  have m: "mode (ex_udev IGBUIO_MSIX_INTR_MODE) = IGBUIO_MSIX_INTR_MODE"
    by (simp add: ex_udev_def)
  show ?thesis
    using C1_msix_set_mask [OF m, of 0 ex_kstate] C1_msix_set_mask [OF m, of 1 ex_kstate]
    by (simp add: ex_udev_def kzalloc_udev_def ex_dev_def ex_desc_def ex_kstate_def
        spec_msix_accesses_def spec_mask_word_def spec_ctrl_addr_def)
qed

text \<open>
  C4. In Legacy mode \<^verbatim>\<open>igbuio_set_interrupt_mask\<close> reads the 32-bit command/status
  register, takes the low 16 bits of what the read delivers as the command, clears the
  interrupt-disable bit (bit 10) to enable and sets it to disable, all other bits kept,
  and writes the 16-bit command back exactly when that changes it. The write, when the
  bus accepts it, replaces the command register and nothing else; the context is not
  changed and the call returns 0. When the bus answers the read, the command taken is the
  command register itself.
\<close>

theorem C4_legacy_set_mask:
  assumes "mode udev = IGBUIO_LEGACY_INTR_MODE"
  shows "igbuio_set_interrupt_mask udev state s =
     (0, udev,
      if bit (spec_command s) 10 = (state = 0)
      then s\<lparr>trace := trace s @ [Pci_read_config_dword PCI_COMMAND (cfg_read_ret s)]\<rparr>
      else s\<lparr>cfg := (if cfg_write_ret s = 0
                     then (cfg s)(PCI_COMMAND := spec_cmd_word state (spec_command s))
                     else cfg s),
             trace := trace s @ [Pci_read_config_dword PCI_COMMAND (cfg_read_ret s),
                                 Pci_write_config_word PCI_COMMAND
                                   (spec_cmd_word state (spec_command s)) (cfg_write_ret s)]\<rparr>)
     \<and> (cfg_read_ret s = 0 \<longrightarrow> spec_command s = cfg s PCI_COMMAND)"
  using legacy_set_mask_gen [OF assms] sub_fields_of_register(1) by simp

theorem C4_legacy_set_mask_witness:
  "mode (ex_udev IGBUIO_LEGACY_INTR_MODE) = IGBUIO_LEGACY_INTR_MODE \<and> cfg_read_ret ex_kstate = 0
   \<and> trace (snd (snd (igbuio_set_interrupt_mask (ex_udev IGBUIO_LEGACY_INTR_MODE) 0 ex_kstate))) =
       [Pci_read_config_dword 4 0, Pci_write_config_word 4 0x0407 0]
   \<and> cfg (snd (snd (igbuio_set_interrupt_mask (ex_udev IGBUIO_LEGACY_INTR_MODE) 0 ex_kstate))) 4
       = 0x0407
   \<and> trace (snd (snd (igbuio_set_interrupt_mask (ex_udev IGBUIO_LEGACY_INTR_MODE) 1 ex_kstate))) =
       [Pci_read_config_dword 4 0]"
proof -
  have m: "mode (ex_udev IGBUIO_LEGACY_INTR_MODE) = IGBUIO_LEGACY_INTR_MODE"
    by (simp add: ex_udev_def)
  have r: "cfg_read_ret ex_kstate = 0"
    by (simp add: ex_kstate_def)
  have c: "spec_command ex_kstate = 0x0007"
    by (simp add: sub_fields_of_register r) (simp add: ex_kstate_def)
  have w: "cfg_write_ret ex_kstate = 0" and t: "trace ex_kstate = []"
    by (simp_all add: ex_kstate_def)
  have e0: "igbuio_set_interrupt_mask (ex_udev IGBUIO_LEGACY_INTR_MODE) 0 ex_kstate =
      (0, ex_udev IGBUIO_LEGACY_INTR_MODE,
       ex_kstate\<lparr>cfg := (cfg ex_kstate)(PCI_COMMAND := 0x0407),
                 trace := [Pci_read_config_dword PCI_COMMAND 0,
                           Pci_write_config_word PCI_COMMAND 0x0407 0]\<rparr>)"
    using C4_legacy_set_mask [OF m, of 0 ex_kstate]
    by (simp add: c r w t spec_cmd_word_def)
  have e1: "igbuio_set_interrupt_mask (ex_udev IGBUIO_LEGACY_INTR_MODE) 1 ex_kstate =
      (0, ex_udev IGBUIO_LEGACY_INTR_MODE,
       ex_kstate\<lparr>trace := [Pci_read_config_dword PCI_COMMAND 0]\<rparr>)"
    using C4_legacy_set_mask [OF m, of 1 ex_kstate]
    by (simp add: c r w t spec_cmd_word_def)
  show ?thesis
    by (simp add: e0 e1 m r PCI_COMMAND_def)
qed

text \<open>
  C2. The interrupt handler takes both guards and, in Legacy mode, reads the
  command/status register and looks at the interrupt-pending bit (bit 3) of the status
  sub-field, the upper 16 bits of what the read delivers. When the bit is clear the
  handler returns \<open>IRQ_NONE\<close>: it has released the guards and written its log line, and has
  written nothing to the device. When the bit is set, and in every other mode without
  looking at it, the handler calls the mask controller with \<open>state = 0\<close> (disable) under
  the guards and returns \<open>IRQ_HANDLED\<close>. When the bus answers the read, the status looked
  at is the status register itself.
\<close>

theorem C2_irqhandler:
  "(mode udev = IGBUIO_LEGACY_INTR_MODE \<and> \<not> bit (spec_status s) 3 \<longrightarrow>
      igbuio_pci_irqhandler irqn udev s =
        (IRQ_NONE, udev,
         s\<lparr>trace := trace s @ [Spin_lock_irqsave, PCI_LOCK,
                               Pci_read_config_dword PCI_COMMAND (cfg_read_ret s),
                               PCI_UNLOCK, Spin_unlock_irqrestore, Printk (Log_irq irqn False)]\<rparr>))
   \<and> (mode udev = IGBUIO_LEGACY_INTR_MODE \<and> bit (spec_status s) 3 \<longrightarrow>
      igbuio_pci_irqhandler irqn udev s =
        spec_handled irqn (igbuio_set_interrupt_mask udev 0
          (s\<lparr>trace := trace s @ [Spin_lock_irqsave, PCI_LOCK,
                                Pci_read_config_dword PCI_COMMAND (cfg_read_ret s)]\<rparr>)))
   \<and> (mode udev \<noteq> IGBUIO_LEGACY_INTR_MODE \<longrightarrow>
      igbuio_pci_irqhandler irqn udev s =
        spec_handled irqn (igbuio_set_interrupt_mask udev 0
          (s\<lparr>trace := trace s @ [Spin_lock_irqsave, PCI_LOCK]\<rparr>)))
   \<and> (cfg_read_ret s = 0 \<longrightarrow> spec_status s = cfg s (PCI_COMMAND + 2))"
proof -
  let ?s2 = "s\<lparr>trace := trace s @ [Spin_lock_irqsave, PCI_LOCK]\<rparr>"
  have rd: "pci_read_config_dword PCI_COMMAND ?s2 =
      (cfg_read_ret s, cmd_status_read s,
       s\<lparr>trace := trace s @ [Spin_lock_irqsave, PCI_LOCK,
                             Pci_read_config_dword PCI_COMMAND (cfg_read_ret s)]\<rparr>)"
    by (simp add: cmd_status_read_def pci_read_config_dword_def Let_def log_event_def)
  show ?thesis
    by (simp add: igbuio_pci_irqhandler_def irqhandler_done_def spec_handled_def Let_def
        log_event_def rd spec_status_def [symmetric] status_bit case_prod_beta
        sub_fields_of_register(2))
qed

theorem C2_irqhandler_witness:
  "fst (igbuio_pci_irqhandler 11 (ex_udev IGBUIO_LEGACY_INTR_MODE)
          (ex_kstate\<lparr>cfg := (cfg ex_kstate)(6 := 0x0010)\<rparr>)) = IRQ_NONE
   \<and> hw_writes (trace (snd (snd (igbuio_pci_irqhandler 11 (ex_udev IGBUIO_LEGACY_INTR_MODE)
          (ex_kstate\<lparr>cfg := (cfg ex_kstate)(6 := 0x0010)\<rparr>))))) = []
   \<and> fst (igbuio_pci_irqhandler 11 (ex_udev IGBUIO_LEGACY_INTR_MODE) ex_kstate) = IRQ_HANDLED
   \<and> hw_writes (trace (snd (snd (igbuio_pci_irqhandler 11 (ex_udev IGBUIO_LEGACY_INTR_MODE)
          ex_kstate)))) = [Pci_write_config_word 4 0x0407 0]
   \<and> fst (igbuio_pci_irqhandler 11 (ex_udev IGBUIO_MSIX_INTR_MODE) ex_kstate) = IRQ_HANDLED
   \<and> hw_writes (trace (snd (snd (igbuio_pci_irqhandler 11 (ex_udev IGBUIO_MSIX_INTR_MODE)
          ex_kstate)))) = [Writel 1 0x203C]"
proof -
  have l: "mode (ex_udev IGBUIO_LEGACY_INTR_MODE) = IGBUIO_LEGACY_INTR_MODE"
    and x: "mode (ex_udev IGBUIO_MSIX_INTR_MODE) = IGBUIO_MSIX_INTR_MODE"
    by (simp_all add: ex_udev_def)
  have r: "cfg_read_ret (ex_kstate\<lparr>trace := tr\<rparr>) = 0"
    and w: "cfg_write_ret (ex_kstate\<lparr>trace := tr\<rparr>) = 0" for tr
    by (simp_all add: ex_kstate_def)
  have st: "spec_status (ex_kstate\<lparr>cfg := (cfg ex_kstate)(6 := 0x0010)\<rparr>) = 0x0010"
    "spec_status ex_kstate = 0x0018"
    by (simp_all add: spec_status_def cmd_status_read_def pci_read_config_dword_def Let_def
        ucast_high ucast_high_nf ex_kstate_def PCI_COMMAND_def)
  show ?thesis
    using C2_irqhandler [of "ex_udev IGBUIO_LEGACY_INTR_MODE"
            "ex_kstate\<lparr>cfg := (cfg ex_kstate)(6 := 0x0010)\<rparr>" 11]
          C2_irqhandler [of "ex_udev IGBUIO_LEGACY_INTR_MODE" ex_kstate 11]
          C2_irqhandler [of "ex_udev IGBUIO_MSIX_INTR_MODE" ex_kstate 11]
    by (simp add: l x r w st legacy_set_mask_eq msix_set_mask_eq msix_mask_irq_eq
        spec_handled_def hw_writes_def PCI_COMMAND_def
        spec_cmd_word_def spec_msix_accesses_def spec_mask_word_def spec_ctrl_addr_def
        ex_udev_def kzalloc_udev_def ex_dev_def ex_desc_def ex_kstate_def)
qed

text \<open>
  C10. The irq-control entry point returns 0 for every 32-bit \<open>irq_state\<close>, in every
  mode and whatever the bus answers. Every nonzero \<open>irq_state\<close> acts exactly as 1 does:
  it unmasks; only 0 masks. In MSI mode the call takes and releases the two guards
  and touches nothing else.
\<close>

theorem C10_irqcontrol:
  "fst (igbuio_pci_irqcontrol udev x s) = 0
   \<and> (x \<noteq> 0 \<longrightarrow> igbuio_pci_irqcontrol udev x s = igbuio_pci_irqcontrol udev 1 s)
   \<and> (mode udev = IGBUIO_MSI_INTR_MODE \<longrightarrow>
        igbuio_pci_irqcontrol udev x s =
          (0, udev, s\<lparr>trace := trace s @ [Spin_lock_irqsave, PCI_LOCK, PCI_UNLOCK,
                                          Spin_unlock_irqrestore]\<rparr>))
   \<and> (mode udev = IGBUIO_MSIX_INTR_MODE \<longrightarrow>
        (\<forall>d \<in> set (msi_list (pdev (fst (snd (igbuio_pci_irqcontrol udev x s))))).
           bit (masked d) 0 = (x = 0)))
   \<and> (mode udev = IGBUIO_LEGACY_INTR_MODE \<and> cfg_read_ret s = 0 \<and> cfg_write_ret s = 0 \<longrightarrow>
        bit (cfg (snd (snd (igbuio_pci_irqcontrol udev x s))) PCI_COMMAND) 10 = (x = 0))"
proof (intro conjI impI)
  show "fst (igbuio_pci_irqcontrol udev x s) = 0"
    by (simp add: irqcontrol_eq)
  show "igbuio_pci_irqcontrol udev x s = igbuio_pci_irqcontrol udev 1 s" if "x \<noteq> 0"
    by (simp only: igbuio_pci_irqcontrol_def set_interrupt_mask_nonzero [OF that])
  show "igbuio_pci_irqcontrol udev x s =
          (0, udev, s\<lparr>trace := trace s @ [Spin_lock_irqsave, PCI_LOCK, PCI_UNLOCK,
                                          Spin_unlock_irqrestore]\<rparr>)"
    if "mode udev = IGBUIO_MSI_INTR_MODE"
    using that by (simp add: irqcontrol_eq igbuio_set_interrupt_mask_def)
  show "\<forall>d \<in> set (msi_list (pdev (fst (snd (igbuio_pci_irqcontrol udev x s))))).
           bit (masked d) 0 = (x = 0)"
    if "mode udev = IGBUIO_MSIX_INTR_MODE"
    using that
    by (auto simp add: irqcontrol_eq msix_set_mask_eq msi_list_for_each_list bit_spec_mask_word_0)
  show "bit (cfg (snd (snd (igbuio_pci_irqcontrol udev x s))) PCI_COMMAND) 10 = (x = 0)"
    if "mode udev = IGBUIO_LEGACY_INTR_MODE \<and> cfg_read_ret s = 0 \<and> cfg_write_ret s = 0"
    using that by (auto simp add: irqcontrol_eq legacy_set_mask_eq bit_spec_cmd_word_10)
qed

theorem C10_irqcontrol_witness:
  "igbuio_pci_irqcontrol (ex_udev IGBUIO_LEGACY_INTR_MODE) 0xFFFFFFFF ex_kstate =
     igbuio_pci_irqcontrol (ex_udev IGBUIO_LEGACY_INTR_MODE) 1 ex_kstate
   \<and> igbuio_pci_irqcontrol (ex_udev IGBUIO_MSI_INTR_MODE) 0 ex_kstate =
       (0, ex_udev IGBUIO_MSI_INTR_MODE,
        ex_kstate\<lparr>trace := [Spin_lock_irqsave, PCI_LOCK, PCI_UNLOCK, Spin_unlock_irqrestore]\<rparr>)
   \<and> length (msi_list (pdev (fst (snd
        (igbuio_pci_irqcontrol (ex_udev IGBUIO_MSIX_INTR_MODE) 0 ex_kstate))))) = 1
   \<and> bit (masked (hd (msi_list (pdev (fst (snd
        (igbuio_pci_irqcontrol (ex_udev IGBUIO_MSIX_INTR_MODE) 0 ex_kstate))))))) 0
   \<and> bit (cfg (snd (snd (igbuio_pci_irqcontrol (ex_udev IGBUIO_LEGACY_INTR_MODE) 0 ex_kstate)))
        PCI_COMMAND) 10"
proof -
  have l: "mode (ex_udev IGBUIO_LEGACY_INTR_MODE) = IGBUIO_LEGACY_INTR_MODE"
    and x: "mode (ex_udev IGBUIO_MSIX_INTR_MODE) = IGBUIO_MSIX_INTR_MODE"
    and i: "mode (ex_udev IGBUIO_MSI_INTR_MODE) = IGBUIO_MSI_INTR_MODE"
    by (simp_all add: ex_udev_def)
  have r: "cfg_read_ret ex_kstate = 0" and w: "cfg_write_ret ex_kstate = 0"
    and t: "trace ex_kstate = []"
    by (simp_all add: ex_kstate_def)
  have n: "(0xFFFFFFFF :: s32) \<noteq> 0" by simp
  have m: "length (msi_list (pdev (fst (snd
        (igbuio_pci_irqcontrol (ex_udev IGBUIO_MSIX_INTR_MODE) 0 ex_kstate))))) = 1"
    by (simp add: irqcontrol_eq msix_set_mask_eq x msix_mask_irq_eq ex_udev_def
        kzalloc_udev_def ex_dev_def)
  then have h: "hd (msi_list (pdev (fst (snd
        (igbuio_pci_irqcontrol (ex_udev IGBUIO_MSIX_INTR_MODE) 0 ex_kstate)))))
      \<in> set (msi_list (pdev (fst (snd
        (igbuio_pci_irqcontrol (ex_udev IGBUIO_MSIX_INTR_MODE) 0 ex_kstate)))))"
    by (intro hd_in_set) auto
  show ?thesis
    using C10_irqcontrol [of "ex_udev IGBUIO_LEGACY_INTR_MODE" "0xFFFFFFFF" ex_kstate]
          C10_irqcontrol [of "ex_udev IGBUIO_MSI_INTR_MODE" 0 ex_kstate]
          C10_irqcontrol [of "ex_udev IGBUIO_MSIX_INTR_MODE" 0 ex_kstate]
          C10_irqcontrol [of "ex_udev IGBUIO_LEGACY_INTR_MODE" 0 ex_kstate]
          h
    by (simp add: l x i r w t n m)
qed

text \<open>
  C5, as the code has it. Two calls of \<^verbatim>\<open>igbuio_set_interrupt_mask\<close> in a row that ask
  for the same thing (both enable, or both disable), in MSI-X mode, or in Legacy mode on a
  bus that answers the configuration read and write: the second call issues no hardware
  write and changes neither the context nor the device, because it finds the mirror, or
  the register it reads, already as wanted. The first call issues at most one write per
  descriptor in MSI-X mode and at most one otherwise; so for a context with at most the
  single vector the module requests, the two calls together issue at most one hardware
  write.
\<close>

theorem C5_set_mask_idempotent:
  assumes "igbuio_set_interrupt_mask udev x s = (r1, u1, s1)"
      and "igbuio_set_interrupt_mask u1 y s1 = (r2, u2, s2)"
      and "(x = 0) = (y = 0)"
      and "mode udev = IGBUIO_LEGACY_INTR_MODE \<longrightarrow> cfg_read_ret s = 0 \<and> cfg_write_ret s = 0"
  shows "hw_writes (trace s2) = hw_writes (trace s1)
       \<and> u2 = u1 \<and> cfg s2 = cfg s1 \<and> mmio s2 = mmio s1
       \<and> length (hw_writes (trace s1)) \<le> length (hw_writes (trace s)) +
            (if mode udev = IGBUIO_MSIX_INTR_MODE then length (msi_list (pdev udev)) else 1)
       \<and> (length (msi_list (pdev udev)) \<le> IGBUIO_NUM_MSI_VECTORS \<longrightarrow>
            length (hw_writes (trace s2)) \<le> length (hw_writes (trace s)) + 1)"
proof (cases "mode udev")
  case IGBUIO_LEGACY_INTR_MODE
  have 1: "igbuio_set_interrupt_mask udev x s = (r1, u1, s1)" by (rule assms(1))
  have bus: "cfg_read_ret s = 0" "cfg_write_ret s = 0"
    using assms(4) IGBUIO_LEGACY_INTR_MODE by simp_all
  have u: "u1 = udev" and r: "cfg_read_ret s1 = 0"
    and b: "bit (cfg s1 PCI_COMMAND) 10 = (x = 0)"
    and w: "length (hw_writes (trace s1)) \<le> length (hw_writes (trace s)) + 1"
    using 1 bus
    by (auto simp add: legacy_set_mask_eq [OF IGBUIO_LEGACY_INTR_MODE] bit_spec_cmd_word_10
        hw_writes_def split: if_splits)
  have 2: "igbuio_set_interrupt_mask udev y s1 = (r2, u2, s2)"
    using assms(2) u by simp
  have "hw_writes (trace s2) = hw_writes (trace s1) \<and> u2 = u1 \<and> cfg s2 = cfg s1
      \<and> mmio s2 = mmio s1"
    using 2 b assms(3) u
    by (auto simp add: legacy_set_mask_eq [OF IGBUIO_LEGACY_INTR_MODE r] hw_writes_def)
  then show ?thesis
    using w IGBUIO_LEGACY_INTR_MODE by simp
next
  case IGBUIO_MSI_INTR_MODE
  then show ?thesis
    using assms(1,2) by (auto simp add: igbuio_set_interrupt_mask_def)
next
  case IGBUIO_MSIX_INTR_MODE
  let ?l = "msi_list (pdev udev)"
  let ?l1 = "map (\<lambda>d. d\<lparr>masked := spec_mask_word x (masked d)\<rparr>) ?l"
  have u1: "u1 = udev\<lparr>pdev := (pdev udev)\<lparr>msi_list := ?l1\<rparr>\<rparr>"
    and s1: "s1 = s\<lparr>mmio := msix_mmio_after x ?l (mmio s),
                     trace := trace s @ concat (map (spec_msix_accesses x) ?l)\<rparr>"
    using assms(1)
    by (simp_all add: msix_set_mask_eq [OF IGBUIO_MSIX_INTR_MODE] msi_list_for_each_list
        msi_list_for_each_state)
  have m1: "mode u1 = IGBUIO_MSIX_INTR_MODE" and l1: "msi_list (pdev u1) = ?l1"
    using u1 IGBUIO_MSIX_INTR_MODE by simp_all
  have settled: "\<forall>d\<in>set ?l1. bit (masked d) 0 = (y = 0)"
    using assms(3) by (simp add: bit_spec_mask_word_0)
  have same: "map (\<lambda>d. d\<lparr>masked := spec_mask_word y (masked d)\<rparr>) ?l1 = ?l1"
    using assms(3) by (simp add: spec_mask_word_idem)
  have f: "fst (msi_list_for_each ?l1 y s1) = ?l1"
    by (simp only: msi_list_for_each_list same)
  have "snd (msi_list_for_each ?l1 y s1) = s1\<lparr>mmio := mmio s1, trace := trace s1 @ []\<rparr>"
    by (simp only: msi_list_for_each_state msix_settled [OF settled])
  then have g: "snd (msi_list_for_each ?l1 y s1) = s1"
    by simp
  have e2: "igbuio_set_interrupt_mask u1 y s1 =
              (0, u1\<lparr>pdev := (pdev u1)\<lparr>msi_list := ?l1\<rparr>\<rparr>, s1)"
    using msix_set_mask_eq [OF m1, of y s1] by (simp only: l1 f g)
  have "u1\<lparr>pdev := (pdev u1)\<lparr>msi_list := ?l1\<rparr>\<rparr> = u1"
    by (simp add: u1)
  with e2 assms(2) have u2: "u2 = u1" and s2: "s2 = s1"
    by simp_all
  have w: "length (hw_writes (trace s1)) \<le> length (hw_writes (trace s)) + length ?l"
    using hw_writes_msix_le [of x ?l] by (simp add: s1 hw_writes_append)
  show ?thesis
    using u2 s2 w IGBUIO_MSIX_INTR_MODE by (simp add: IGBUIO_NUM_MSI_VECTORS_def)
next
  case IGBUIO_INTR_MODE_MAX
  then show ?thesis
    using assms(1,2) by (auto simp add: igbuio_set_interrupt_mask_def)
qed

theorem C5_set_mask_idempotent_witness:
  "hw_writes (trace (snd (snd
      (igbuio_set_interrupt_mask (ex_udev IGBUIO_LEGACY_INTR_MODE) 1 ex_masked_kstate)))) =
     [Pci_write_config_word 4 0x0007 0]
   \<and> hw_writes (trace (snd (snd (ex_twice IGBUIO_LEGACY_INTR_MODE 1 1 ex_masked_kstate)))) =
     [Pci_write_config_word 4 0x0007 0]
   \<and> hw_writes (trace (snd (snd
      (igbuio_set_interrupt_mask (ex_udev IGBUIO_MSIX_INTR_MODE) 0 ex_kstate)))) =
     [Writel 1 0x203C]
   \<and> hw_writes (trace (snd (snd (ex_twice IGBUIO_MSIX_INTR_MODE 0 0 ex_kstate)))) =
     [Writel 1 0x203C]"
proof -
  let ?L = "igbuio_set_interrupt_mask (ex_udev IGBUIO_LEGACY_INTR_MODE) 1 ex_masked_kstate"
  let ?X = "igbuio_set_interrupt_mask (ex_udev IGBUIO_MSIX_INTR_MODE) 0 ex_kstate"
  have l: "mode (ex_udev IGBUIO_LEGACY_INTR_MODE) = IGBUIO_LEGACY_INTR_MODE"
    and x: "mode (ex_udev IGBUIO_MSIX_INTR_MODE) = IGBUIO_MSIX_INTR_MODE"
    by (simp_all add: ex_udev_def)
  have r: "cfg_read_ret ex_masked_kstate = 0" "cfg_write_ret ex_masked_kstate = 0"
    "cfg_read_ret ex_kstate = 0" "cfg_write_ret ex_kstate = 0"
    by (simp_all add: ex_masked_kstate_def ex_kstate_def)
  have L1: "hw_writes (trace (snd (snd ?L))) = [Pci_write_config_word 4 0x0007 0]"
    by (simp add: legacy_set_mask_eq l r ex_masked_kstate_def ex_kstate_def hw_writes_def
        spec_cmd_word_def PCI_COMMAND_def)
  have X1: "hw_writes (trace (snd (snd ?X))) = [Writel 1 0x203C]"
    by (simp add: msix_set_mask_eq x msix_mask_irq_eq ex_udev_def kzalloc_udev_def ex_dev_def
        ex_desc_def ex_kstate_def hw_writes_def spec_msix_accesses_def spec_mask_word_def
        spec_ctrl_addr_def)
  have L2: "hw_writes (trace (snd (snd (ex_twice IGBUIO_LEGACY_INTR_MODE 1 1 ex_masked_kstate))))
      = hw_writes (trace (snd (snd ?L)))"
    using C5_set_mask_idempotent [of "ex_udev IGBUIO_LEGACY_INTR_MODE" 1 ex_masked_kstate
        "fst ?L" "fst (snd ?L)" "snd (snd ?L)" 1
        "fst (ex_twice IGBUIO_LEGACY_INTR_MODE 1 1 ex_masked_kstate)"
        "fst (snd (ex_twice IGBUIO_LEGACY_INTR_MODE 1 1 ex_masked_kstate))"
        "snd (snd (ex_twice IGBUIO_LEGACY_INTR_MODE 1 1 ex_masked_kstate))"]
    by (simp add: r ex_twice_def)
  have X2: "hw_writes (trace (snd (snd (ex_twice IGBUIO_MSIX_INTR_MODE 0 0 ex_kstate))))
      = hw_writes (trace (snd (snd ?X)))"
    using C5_set_mask_idempotent [of "ex_udev IGBUIO_MSIX_INTR_MODE" 0 ex_kstate
        "fst ?X" "fst (snd ?X)" "snd (snd ?X)" 0
        "fst (ex_twice IGBUIO_MSIX_INTR_MODE 0 0 ex_kstate)"
        "fst (snd (ex_twice IGBUIO_MSIX_INTR_MODE 0 0 ex_kstate))"
        "snd (snd (ex_twice IGBUIO_MSIX_INTR_MODE 0 0 ex_kstate))"]
    by (simp add: r ex_twice_def)
  show ?thesis
    using L1 L2 X1 X2 by simp
qed

text \<open>
  Where C5 as stated fails. On a context with two masked descriptors two enabling calls
  issue two hardware writes, one per descriptor. In Legacy mode, when the bus reports the
  configuration write as failed, the second enabling call finds the interrupt-disable bit
  still set and issues the write again.
\<close>

theorem C5_set_mask_idempotent_counterexample:
  "mode ex_udev_two = IGBUIO_MSIX_INTR_MODE
   \<and> map masked (msi_list (pdev ex_udev_two)) = [1, 1]
   \<and> hw_writes (trace (snd (snd (ex_two_twice 1 1 ex_kstate)))) =
       [Writel 0 0x200C, Writel 0 0x201C]
   \<and> cfg ex_masked_write_fault_kstate PCI_COMMAND = 0x0407
   \<and> cfg_write_ret ex_masked_write_fault_kstate = 0x86
   \<and> hw_writes (trace (snd (snd
         (ex_twice IGBUIO_LEGACY_INTR_MODE 1 1 ex_masked_write_fault_kstate)))) =
       [Pci_write_config_word 4 0x0007 0x86, Pci_write_config_word 4 0x0007 0x86]"
  by (simp add: ex_two_twice_def ex_twice_def ex_udev_two_def ex_udev_def kzalloc_udev_def
      ex_dev_def ex_masked_write_fault_kstate_def ex_masked_kstate_def ex_kstate_def
      hw_writes_def igbuio_set_interrupt_mask_def igbuio_msix_mask_irq_def
      pci_read_config_dword_def pci_write_config_word_def writel_def readl_def log_event_def
      Let_def PCI_COMMAND_def PCI_COMMAND_INTX_DISABLE_def PCI_MSIX_ENTRY_SIZE_def
      PCI_MSIX_ENTRY_VECTOR_CTRL_def PCI_MSIX_ENTRY_CTRL_MASKBIT_def)

text \<open>
  C6, as the code has it. \<^verbatim>\<open>igbuio_set_interrupt_mask\<close> with \<open>state = 0\<close> followed by a
  call with \<open>state \<noteq> 0\<close> changes no bit other than the mask bit, and leaves the mask bit
  clear: the pattern from before the masking comes back exactly when its mask bit was
  clear. In Legacy mode this holds on a bus that answers the configuration read and
  write: the first call sets bit 10 of the command register and the second clears it; no
  other register and no device memory changes. In Legacy mode on a bus that reports the
  configuration write as failed, neither call changes configuration space or device
  memory. In MSI-X mode, for descriptors whose mirror equals the vector-control word of
  the device, the first call sets bit 0 of every such word and the second clears it; every
  other word, and configuration space, stay as they were. In the other modes nothing
  changes.
\<close>

theorem C6_round_trip:
  assumes "igbuio_set_interrupt_mask udev 0 s = (r1, u1, s1)"
      and "igbuio_set_interrupt_mask u1 x s1 = (r2, u2, s2)"
      and "x \<noteq> 0"
  shows "(mode udev = IGBUIO_LEGACY_INTR_MODE \<and> cfg_read_ret s = 0 \<and> cfg_write_ret s = 0 \<longrightarrow>
            cfg s1 = (cfg s)(PCI_COMMAND := set_bit 10 (cfg s PCI_COMMAND))
          \<and> cfg s2 = (cfg s)(PCI_COMMAND := unset_bit 10 (cfg s PCI_COMMAND))
          \<and> mmio s1 = mmio s \<and> mmio s2 = mmio s \<and> u1 = udev \<and> u2 = udev
          \<and> ((cfg s2 = cfg s) = (\<not> bit (cfg s PCI_COMMAND) 10)))
       \<and> (mode udev = IGBUIO_MSIX_INTR_MODE
            \<and> (\<forall>d\<in>set (msi_list (pdev udev)). mmio s (spec_ctrl_addr d) = masked d) \<longrightarrow>
            mmio s1 = (\<lambda>a. if a \<in> spec_ctrl_addr ` set (msi_list (pdev udev))
                            then set_bit 0 (mmio s a) else mmio s a)
          \<and> mmio s2 = (\<lambda>a. if a \<in> spec_ctrl_addr ` set (msi_list (pdev udev))
                            then unset_bit 0 (mmio s a) else mmio s a)
          \<and> cfg s1 = cfg s \<and> cfg s2 = cfg s
          \<and> u2 = udev\<lparr>pdev := (pdev udev)\<lparr>msi_list :=
                 map (\<lambda>d. d\<lparr>masked := unset_bit 0 (masked d)\<rparr>) (msi_list (pdev udev))\<rparr>\<rparr>
          \<and> ((\<forall>d\<in>set (msi_list (pdev udev)). \<not> bit (masked d) 0) \<longrightarrow>
                mmio s2 = mmio s \<and> u2 = udev))
       \<and> (mode udev \<noteq> IGBUIO_LEGACY_INTR_MODE \<and> mode udev \<noteq> IGBUIO_MSIX_INTR_MODE \<longrightarrow>
            u2 = udev \<and> s2 = s)
       \<and> (mode udev = IGBUIO_LEGACY_INTR_MODE \<and> cfg_write_ret s \<noteq> 0 \<longrightarrow>
            cfg s1 = cfg s \<and> cfg s2 = cfg s \<and> mmio s1 = mmio s \<and> mmio s2 = mmio s
          \<and> u2 = udev)"
proof (intro conjI)
  show "mode udev = IGBUIO_LEGACY_INTR_MODE \<and> cfg_read_ret s = 0 \<and> cfg_write_ret s = 0 \<longrightarrow>
            cfg s1 = (cfg s)(PCI_COMMAND := set_bit 10 (cfg s PCI_COMMAND))
          \<and> cfg s2 = (cfg s)(PCI_COMMAND := unset_bit 10 (cfg s PCI_COMMAND))
          \<and> mmio s1 = mmio s \<and> mmio s2 = mmio s \<and> u1 = udev \<and> u2 = udev
          \<and> ((cfg s2 = cfg s) = (\<not> bit (cfg s PCI_COMMAND) 10))"
  proof
    assume h: "mode udev = IGBUIO_LEGACY_INTR_MODE \<and> cfg_read_ret s = 0 \<and> cfg_write_ret s = 0"
    note rt = round_trip_legacy [OF assms(1,2,3)] 
    have c2: "cfg s2 = (cfg s)(PCI_COMMAND := unset_bit 10 (cfg s PCI_COMMAND))"
      using h by (intro rt(2)) simp_all
    have "(cfg s2 = cfg s) = (unset_bit 10 (cfg s PCI_COMMAND) = cfg s PCI_COMMAND)"
      unfolding c2 by (metis fun_upd_same fun_upd_triv)
    then have "(cfg s2 = cfg s) = (\<not> bit (cfg s PCI_COMMAND) 10)"
      by (simp only: unset_bit_eq_self)
    then show "cfg s1 = (cfg s)(PCI_COMMAND := set_bit 10 (cfg s PCI_COMMAND))
          \<and> cfg s2 = (cfg s)(PCI_COMMAND := unset_bit 10 (cfg s PCI_COMMAND))
          \<and> mmio s1 = mmio s \<and> mmio s2 = mmio s \<and> u1 = udev \<and> u2 = udev
          \<and> ((cfg s2 = cfg s) = (\<not> bit (cfg s PCI_COMMAND) 10))"
      using h rt by blast
  qed
  show "mode udev = IGBUIO_MSIX_INTR_MODE
            \<and> (\<forall>d\<in>set (msi_list (pdev udev)). mmio s (spec_ctrl_addr d) = masked d) \<longrightarrow>
            mmio s1 = (\<lambda>a. if a \<in> spec_ctrl_addr ` set (msi_list (pdev udev))
                            then set_bit 0 (mmio s a) else mmio s a)
          \<and> mmio s2 = (\<lambda>a. if a \<in> spec_ctrl_addr ` set (msi_list (pdev udev))
                            then unset_bit 0 (mmio s a) else mmio s a)
          \<and> cfg s1 = cfg s \<and> cfg s2 = cfg s
          \<and> u2 = udev\<lparr>pdev := (pdev udev)\<lparr>msi_list :=
                 map (\<lambda>d. d\<lparr>masked := unset_bit 0 (masked d)\<rparr>) (msi_list (pdev udev))\<rparr>\<rparr>
          \<and> ((\<forall>d\<in>set (msi_list (pdev udev)). \<not> bit (masked d) 0) \<longrightarrow>
                mmio s2 = mmio s \<and> u2 = udev)"
  proof
    assume h: "mode udev = IGBUIO_MSIX_INTR_MODE
            \<and> (\<forall>d\<in>set (msi_list (pdev udev)). mmio s (spec_ctrl_addr d) = masked d)"
    then have m: "mode udev = IGBUIO_MSIX_INTR_MODE"
      and mirror: "\<forall>d\<in>set (msi_list (pdev udev)). mmio s (spec_ctrl_addr d) = masked d"
      by simp_all
    note rt = round_trip_msix [OF assms(1,2,3) m mirror]
    have restored: "mmio s2 = mmio s \<and> u2 = udev"
      if clear: "\<forall>d\<in>set (msi_list (pdev udev)). \<not> bit (masked d) 0"
    proof
      have "unset_bit 0 (mmio s a) = mmio s a"
        if "a \<in> spec_ctrl_addr ` set (msi_list (pdev udev))" for a
        using that mirror clear by (auto simp add: unset_bit_id)
      then show "mmio s2 = mmio s"
        unfolding rt(2) by (auto simp add: fun_eq_iff)
      have "map (\<lambda>d. d\<lparr>masked := unset_bit 0 (masked d)\<rparr>) (msi_list (pdev udev)) =
              msi_list (pdev udev)"
        using clear by (simp add: unset_bit_id map_idI)
      then show "u2 = udev"
        unfolding rt(5) by simp
    qed
    show "mmio s1 = (\<lambda>a. if a \<in> spec_ctrl_addr ` set (msi_list (pdev udev))
                            then set_bit 0 (mmio s a) else mmio s a)
          \<and> mmio s2 = (\<lambda>a. if a \<in> spec_ctrl_addr ` set (msi_list (pdev udev))
                            then unset_bit 0 (mmio s a) else mmio s a)
          \<and> cfg s1 = cfg s \<and> cfg s2 = cfg s
          \<and> u2 = udev\<lparr>pdev := (pdev udev)\<lparr>msi_list :=
                 map (\<lambda>d. d\<lparr>masked := unset_bit 0 (masked d)\<rparr>) (msi_list (pdev udev))\<rparr>\<rparr>
          \<and> ((\<forall>d\<in>set (msi_list (pdev udev)). \<not> bit (masked d) 0) \<longrightarrow>
                mmio s2 = mmio s \<and> u2 = udev)"
      using rt restored by blast
  qed
  show "mode udev \<noteq> IGBUIO_LEGACY_INTR_MODE \<and> mode udev \<noteq> IGBUIO_MSIX_INTR_MODE \<longrightarrow>
            u2 = udev \<and> s2 = s"
    using assms(1,2) by (auto simp add: igbuio_set_interrupt_mask_def)
  show "mode udev = IGBUIO_LEGACY_INTR_MODE \<and> cfg_write_ret s \<noteq> 0 \<longrightarrow>
            cfg s1 = cfg s \<and> cfg s2 = cfg s \<and> mmio s1 = mmio s \<and> mmio s2 = mmio s
          \<and> u2 = udev"
    using round_trip_legacy_write_fault [OF assms(1,2)] by blast
qed

theorem C6_round_trip_witness:
  "cfg (snd (snd (ex_twice IGBUIO_LEGACY_INTR_MODE 0 1 ex_kstate))) = cfg ex_kstate
   \<and> cfg (snd (snd (ex_twice IGBUIO_LEGACY_INTR_MODE 0 1 ex_masked_kstate))) =
       (cfg ex_masked_kstate)(PCI_COMMAND := 0x0007)
   \<and> mmio (snd (snd (ex_twice IGBUIO_MSIX_INTR_MODE 0 1 ex_kstate))) = mmio ex_kstate
   \<and> fst (snd (ex_twice IGBUIO_MSIX_INTR_MODE 0 1 ex_kstate)) = ex_udev IGBUIO_MSIX_INTR_MODE
   \<and> snd (ex_twice IGBUIO_MSI_INTR_MODE 0 1 ex_kstate) =
       (ex_udev IGBUIO_MSI_INTR_MODE, ex_kstate)
   \<and> cfg (snd (snd (ex_twice IGBUIO_LEGACY_INTR_MODE 0 1 ex_masked_write_fault_kstate))) =
       cfg ex_masked_write_fault_kstate"
proof -
  let ?F = "\<lambda>m s. igbuio_set_interrupt_mask (ex_udev m) 0 s"
  have inst: "?F m s = (fst (?F m s), fst (snd (?F m s)), snd (snd (?F m s)))"
    "igbuio_set_interrupt_mask (fst (snd (?F m s))) 1 (snd (snd (?F m s))) =
       (fst (ex_twice m 0 1 s), fst (snd (ex_twice m 0 1 s)), snd (snd (ex_twice m 0 1 s)))"
    "(1::s32) \<noteq> 0" for m s
    by (simp_all add: ex_twice_def)
  have l: "mode (ex_udev IGBUIO_LEGACY_INTR_MODE) = IGBUIO_LEGACY_INTR_MODE"
    and x: "mode (ex_udev IGBUIO_MSIX_INTR_MODE) = IGBUIO_MSIX_INTR_MODE"
    and i: "mode (ex_udev IGBUIO_MSI_INTR_MODE) = IGBUIO_MSI_INTR_MODE"
    by (simp_all add: ex_udev_def)
  have r: "cfg_read_ret ex_masked_kstate = 0" "cfg_write_ret ex_masked_kstate = 0"
    "cfg_read_ret ex_kstate = 0" "cfg_write_ret ex_kstate = 0"
    by (simp_all add: ex_masked_kstate_def ex_kstate_def)
  have b: "\<not> bit (cfg ex_kstate PCI_COMMAND) 10"
    "unset_bit 10 (cfg ex_masked_kstate PCI_COMMAND) = 0x0007"
    by (simp_all add: ex_kstate_def ex_masked_kstate_def PCI_COMMAND_def bit_eq_iff)
  have mir: "\<forall>d\<in>set (msi_list (pdev (ex_udev IGBUIO_MSIX_INTR_MODE))).
      mmio ex_kstate (spec_ctrl_addr d) = masked d"
    "\<forall>d\<in>set (msi_list (pdev (ex_udev IGBUIO_MSIX_INTR_MODE))). \<not> bit (masked d) 0"
    by (simp_all add: ex_udev_def kzalloc_udev_def ex_dev_def ex_desc_def ex_kstate_def)
  have A: "cfg (snd (snd (ex_twice IGBUIO_LEGACY_INTR_MODE 0 1 ex_kstate))) = cfg ex_kstate"
    using C6_round_trip [OF inst, of IGBUIO_LEGACY_INTR_MODE ex_kstate] l r(3,4) b(1)
    by blast
  have "cfg (snd (snd (ex_twice IGBUIO_LEGACY_INTR_MODE 0 1 ex_masked_kstate))) =
          (cfg ex_masked_kstate)(PCI_COMMAND := unset_bit 10 (cfg ex_masked_kstate PCI_COMMAND))"
    using C6_round_trip [OF inst, of IGBUIO_LEGACY_INTR_MODE ex_masked_kstate] l r(1,2)
    by blast
  then have B: "cfg (snd (snd (ex_twice IGBUIO_LEGACY_INTR_MODE 0 1 ex_masked_kstate))) =
          (cfg ex_masked_kstate)(PCI_COMMAND := 0x0007)"
    by (simp only: b(2))
  have C: "mmio (snd (snd (ex_twice IGBUIO_MSIX_INTR_MODE 0 1 ex_kstate))) = mmio ex_kstate
      \<and> fst (snd (ex_twice IGBUIO_MSIX_INTR_MODE 0 1 ex_kstate)) = ex_udev IGBUIO_MSIX_INTR_MODE"
    using C6_round_trip [OF inst, of IGBUIO_MSIX_INTR_MODE ex_kstate] x mir
    by blast
  have "fst (snd (ex_twice IGBUIO_MSI_INTR_MODE 0 1 ex_kstate)) = ex_udev IGBUIO_MSI_INTR_MODE
      \<and> snd (snd (ex_twice IGBUIO_MSI_INTR_MODE 0 1 ex_kstate)) = ex_kstate"
    using C6_round_trip [OF inst, of IGBUIO_MSI_INTR_MODE ex_kstate] i
    by simp
  then have D: "snd (ex_twice IGBUIO_MSI_INTR_MODE 0 1 ex_kstate) =
       (ex_udev IGBUIO_MSI_INTR_MODE, ex_kstate)"
    by (simp add: prod_eq_iff)
  have wf: "cfg_write_ret ex_masked_write_fault_kstate \<noteq> 0"
    by (simp add: ex_masked_write_fault_kstate_def)
  have E: "cfg (snd (snd (ex_twice IGBUIO_LEGACY_INTR_MODE 0 1 ex_masked_write_fault_kstate))) =
       cfg ex_masked_write_fault_kstate"
    using C6_round_trip [OF inst, of IGBUIO_LEGACY_INTR_MODE ex_masked_write_fault_kstate] l wf
    by blast
  show ?thesis
    using A B C D E by blast
qed

text \<open>
  Where C6 as stated fails. A command register whose interrupt-disable bit is set before
  the masking ends with the bit clear. A vector-control word with a bit that its mirror
  lacks loses that bit at the masking call, which writes the word computed from the
  mirror. When the bus reports the configuration read as failed and leaves all ones in
  the variable, the unmasking call writes a command word computed from the all-ones
  value.
\<close>

theorem C6_round_trip_counterexample:
  "cfg ex_masked_kstate PCI_COMMAND = 0x0407
   \<and> cfg (snd (snd (ex_twice IGBUIO_LEGACY_INTR_MODE 0 1 ex_masked_kstate))) PCI_COMMAND = 0x0007
   \<and> mmio ex_stale_mirror_kstate 0x203C = 2
   \<and> mmio (snd (snd (igbuio_set_interrupt_mask (ex_udev IGBUIO_MSIX_INTR_MODE) 0
              ex_stale_mirror_kstate))) 0x203C = 1
   \<and> cfg_read_ret ex_read_fault_kstate = 0x86
   \<and> cfg ex_read_fault_kstate PCI_COMMAND = 0x0007
   \<and> cfg (snd (snd (ex_twice IGBUIO_LEGACY_INTR_MODE 0 1 ex_read_fault_kstate))) PCI_COMMAND
       = 0xFBFF"
  by (simp add: ex_twice_def ex_masked_kstate_def ex_stale_mirror_kstate_def ex_kstate_def
      ex_read_fault_kstate_def
      ex_udev_def kzalloc_udev_def ex_dev_def ex_desc_def igbuio_set_interrupt_mask_def
      igbuio_msix_mask_irq_def pci_read_config_dword_def pci_write_config_word_def writel_def
      readl_def log_event_def Let_def PCI_COMMAND_def PCI_COMMAND_INTX_DISABLE_def
      PCI_MSIX_ENTRY_SIZE_def PCI_MSIX_ENTRY_VECTOR_CTRL_def PCI_MSIX_ENTRY_CTRL_MASKBIT_def)

text \<open>
  C9, as the code has it. The mask controller and the irq-control entry point never look
  at what the bus answers to a configuration access. Whatever the mode, the request and
  the answers of the bus, both return 0 and neither writes a log line; the mode and the
  uio fields of the context stay as they are, and in Legacy mode the whole context does.
  When the bus reports the configuration write as failed, configuration space is as it
  was before the call.
\<close>

theorem C9_config_failures_ignored:
  "fst (igbuio_set_interrupt_mask udev x s) = 0
   \<and> fst (igbuio_pci_irqcontrol udev x s) = 0
   \<and> filter is_printk (trace (snd (snd (igbuio_pci_irqcontrol udev x s)))) =
       filter is_printk (trace s)
   \<and> mode (fst (snd (igbuio_pci_irqcontrol udev x s))) = mode udev
   \<and> info (fst (snd (igbuio_pci_irqcontrol udev x s))) = info udev
   \<and> (mode udev = IGBUIO_LEGACY_INTR_MODE \<longrightarrow>
        fst (snd (igbuio_pci_irqcontrol udev x s)) = udev)
   \<and> (cfg_write_ret s \<noteq> 0 \<longrightarrow> cfg (snd (snd (igbuio_pci_irqcontrol udev x s))) = cfg s)"
  by (simp add: irqcontrol_eq set_interrupt_mask_ret set_mask_frame)

theorem C9_config_failures_ignored_witness:
  "fst (igbuio_pci_irqcontrol (ex_udev IGBUIO_LEGACY_INTR_MODE) 0 ex_write_fault_kstate) = 0
   \<and> fst (snd (igbuio_pci_irqcontrol (ex_udev IGBUIO_LEGACY_INTR_MODE) 0 ex_write_fault_kstate))
       = ex_udev IGBUIO_LEGACY_INTR_MODE
   \<and> cfg (snd (snd (igbuio_pci_irqcontrol (ex_udev IGBUIO_LEGACY_INTR_MODE) 0
            ex_write_fault_kstate))) = cfg ex_write_fault_kstate
   \<and> hw_writes (trace (snd (snd (igbuio_pci_irqcontrol (ex_udev IGBUIO_LEGACY_INTR_MODE) 0
            ex_write_fault_kstate)))) = [Pci_write_config_word 4 0x0407 0x86]
   \<and> filter is_printk (trace (snd (snd (igbuio_pci_irqcontrol (ex_udev IGBUIO_LEGACY_INTR_MODE) 0
            ex_write_fault_kstate)))) = []"
proof -
  have l: "mode (ex_udev IGBUIO_LEGACY_INTR_MODE) = IGBUIO_LEGACY_INTR_MODE"
    by (simp add: ex_udev_def)
  have w: "cfg_write_ret ex_write_fault_kstate \<noteq> 0" and t: "trace ex_write_fault_kstate = []"
    by (simp_all add: ex_write_fault_kstate_def ex_kstate_def)
  have h: "hw_writes (trace (snd (snd (igbuio_pci_irqcontrol (ex_udev IGBUIO_LEGACY_INTR_MODE) 0
            ex_write_fault_kstate)))) = [Pci_write_config_word 4 0x0407 0x86]"
    by (simp add: irqcontrol_eq legacy_set_mask_eq l ex_write_fault_kstate_def ex_kstate_def
        hw_writes_def spec_cmd_word_def PCI_COMMAND_def)
  show ?thesis
    using C9_config_failures_ignored [of "ex_udev IGBUIO_LEGACY_INTR_MODE" 0 ex_write_fault_kstate]
      l w t h
    by simp
qed

text \<open>
  Where C9 as stated fails: the bus reports the configuration read as failed and leaves
  all ones in the variable. Nothing is logged, and the request is not dropped: the
  command word computed from the all-ones value is written to the command register.
\<close>

theorem C9_config_failures_counterexample:
  "cfg_read_ret ex_read_fault_kstate = 0x86
   \<and> cfg ex_read_fault_kstate PCI_COMMAND = 0x0007
   \<and> trace (snd (snd (igbuio_pci_irqcontrol (ex_udev IGBUIO_LEGACY_INTR_MODE) 1
            ex_read_fault_kstate))) =
       [Spin_lock_irqsave, PCI_LOCK, Pci_read_config_dword 4 0x86,
        Pci_write_config_word 4 0xFBFF 0, PCI_UNLOCK, Spin_unlock_irqrestore]
   \<and> filter is_printk (trace (snd (snd (igbuio_pci_irqcontrol (ex_udev IGBUIO_LEGACY_INTR_MODE) 1
            ex_read_fault_kstate)))) = []
   \<and> cfg (snd (snd (igbuio_pci_irqcontrol (ex_udev IGBUIO_LEGACY_INTR_MODE) 1
            ex_read_fault_kstate))) PCI_COMMAND = 0xFBFF"
  by (simp add: igbuio_pci_irqcontrol_def igbuio_set_interrupt_mask_def ex_read_fault_kstate_def
      ex_kstate_def ex_udev_def pci_read_config_dword_def pci_write_config_word_def
      log_event_def Let_def PCI_COMMAND_def PCI_COMMAND_INTX_DISABLE_def)

text \<open>
  C8, as the code has it. For a region index inside the region table,
  \<^verbatim>\<open>igbuio_pci_setup_iomem\<close> fails exactly when the BAR's base address or length is zero,
  in which case the mapping primitive is not called, or when the mapping primitive
  returns \<open>NULL\<close>. Both failures return the same status \<open>-1\<close> and leave the region table
  as it was. Otherwise the call returns 0 and the slot at the region index holds the name,
  the physical address, the mapped pointer, the length and the memory type
  \<open>UIO_MEM_PHYS\<close>; the other slots are unchanged.
\<close>

theorem C8_setup_iomem:
  assumes "n < length (mem uinfo)"
  shows "(resource_start dev bar = 0 \<or> resource_len dev bar = 0 \<longrightarrow>
            igbuio_pci_setup_iomem iomap dev uinfo n bar nm s = Some (- 1, uinfo, s))
       \<and> (resource_start dev bar \<noteq> 0 \<and> resource_len dev bar \<noteq> 0
            \<and> iomap (resource_start dev bar) (resource_len dev bar) = 0 \<longrightarrow>
            igbuio_pci_setup_iomem iomap dev uinfo n bar nm s =
              Some (- 1, uinfo,
                    s\<lparr>trace := trace s @
                        [Ioremap (resource_start dev bar) (resource_len dev bar) 0]\<rparr>))
       \<and> (resource_start dev bar \<noteq> 0 \<and> resource_len dev bar \<noteq> 0
            \<and> iomap (resource_start dev bar) (resource_len dev bar) \<noteq> 0 \<longrightarrow>
            igbuio_pci_setup_iomem iomap dev uinfo n bar nm s =
              Some (0,
                    uinfo\<lparr>mem := (mem uinfo)
                      [n := \<lparr>mem_name = nm, addr = resource_start dev bar,
                              internal_addr = iomap (resource_start dev bar) (resource_len dev bar),
                              size = resource_len dev bar, memtype = UIO_MEM_PHYS\<rparr>]\<rparr>,
                    s\<lparr>trace := trace s @
                        [Ioremap (resource_start dev bar) (resource_len dev bar)
                           (iomap (resource_start dev bar) (resource_len dev bar))]\<rparr>))
       \<and> (fst (the (igbuio_pci_setup_iomem iomap dev uinfo n bar nm s)) = 0
            \<or> fst (the (igbuio_pci_setup_iomem iomap dev uinfo n bar nm s)) = - 1)"
  using assms by (simp add: igbuio_pci_setup_iomem_def Let_def log_event_def)

theorem C8_setup_iomem_witness:
  "igbuio_pci_setup_iomem (\<lambda>a l. 0xFFFFC90000000000) ex_dev (info (kzalloc_udev ex_dev)) 0 0
      ''config'' ex_kstate =
     Some (0,
       (info (kzalloc_udev ex_dev))\<lparr>mem :=
          [\<lparr>mem_name = ''config'', addr = 0x1000, internal_addr = 0xFFFFC90000000000,
            size = 0x1000, memtype = 1\<rparr>,
           zero_uio_mem, zero_uio_mem, zero_uio_mem, zero_uio_mem]\<rparr>,
       ex_kstate\<lparr>trace := [Ioremap 0x1000 0x1000 0xFFFFC90000000000]\<rparr>)
   \<and> igbuio_pci_setup_iomem (\<lambda>a l. 0xFFFFC90000000000) ex_dev (info (kzalloc_udev ex_dev)) 0 2
      ''config'' ex_kstate = Some (- 1, info (kzalloc_udev ex_dev), ex_kstate)
   \<and> igbuio_pci_setup_iomem (\<lambda>a l. 0) ex_dev (info (kzalloc_udev ex_dev)) 0 0
      ''config'' ex_kstate =
     Some (- 1, info (kzalloc_udev ex_dev), ex_kstate\<lparr>trace := [Ioremap 0x1000 0x1000 0]\<rparr>)"
proof -
  have n: "0 < length (mem (info (kzalloc_udev ex_dev)))"
    by (simp add: kzalloc_udev_def MAX_UIO_MAPS_def)
  have m: "mem (info (kzalloc_udev ex_dev)) =
      [zero_uio_mem, zero_uio_mem, zero_uio_mem, zero_uio_mem, zero_uio_mem]"
    by (simp add: kzalloc_udev_def MAX_UIO_MAPS_def eval_nat_numeral)
  have d: "resource_start ex_dev 0 = 0x1000" "resource_len ex_dev 0 = 0x1000"
    "resource_start ex_dev 2 = 0" "trace ex_kstate = []"
    by (simp_all add: ex_dev_def ex_kstate_def)
  show ?thesis
    using C8_setup_iomem [OF n, of ex_dev 0 "\<lambda>a l. 0xFFFFC90000000000" "''config''" ex_kstate]
      C8_setup_iomem [OF n, of ex_dev 2 "\<lambda>a l. 0xFFFFC90000000000" "''config''" ex_kstate]
      C8_setup_iomem [OF n, of ex_dev 0 "\<lambda>a l. 0" "''config''" ex_kstate]
    by (simp add: d m UIO_MEM_PHYS_def)
qed

text \<open>
  Where C8 as stated fails: an absent BAR and a mapping that cannot be made give the
  same status, so the caller cannot tell the one failure from the other.
\<close>

theorem C8_setup_iomem_counterexample:
  "resource_start ex_dev 2 = 0
   \<and> map_option fst (igbuio_pci_setup_iomem (\<lambda>a l. 0xFFFFC90000000000) ex_dev
        (info (kzalloc_udev ex_dev)) 0 2 ''config'' ex_kstate) = Some (- 1)
   \<and> resource_start ex_dev 0 = 0x1000 \<and> resource_len ex_dev 0 = 0x1000
   \<and> map_option fst (igbuio_pci_setup_iomem (\<lambda>a l. 0) ex_dev
        (info (kzalloc_udev ex_dev)) 0 0 ''config'' ex_kstate) = Some (- 1)"
  by (simp add: igbuio_pci_setup_iomem_def Let_def ex_dev_def)

text \<open>
  C3. The choice of the interrupt mode during attach. When every earlier stage has
  succeeded the probe asks for MSI-X exactly once, for \<open>IGBUIO_NUM_MSI_VECTORS = 1\<close>
  vector with entry index 0; otherwise it never asks. If the request succeeds, the
  attached context has mode MSI-X, its registered irq is the vector the platform assigned
  and its irq flags are 0. If it fails, \<^verbatim>\<open>pci_disable_msix\<close> follows the request at once,
  and the attached context has mode Legacy, the device's own line as irq and the flag
  \<open>IRQF_SHARED\<close>. The mode is never MSI, and the status of the probe does not depend on
  how the request went.
\<close>

theorem C3_mode_selection:
  "filter is_msix_request (probe_log env dev s) =
     (if probe_ready env dev
      then [Pci_enable_msix [0] IGBUIO_NUM_MSI_VECTORS (enable_msix_ret env)] else [])
   \<and> (probe_ready env dev \<and> enable_msix_ret env \<noteq> 0 \<longrightarrow>
        (\<exists>a b. probe_log env dev s =
             a @ [Pci_enable_msix [0] IGBUIO_NUM_MSI_VECTORS (enable_msix_ret env),
                  Pci_disable_msix] @ b))
   \<and> (first_failure env dev = None \<and> enable_msix_ret env = 0 \<longrightarrow>
        map_option mode (probe_ctx env dev s) = Some IGBUIO_MSIX_INTR_MODE
      \<and> map_option (irq \<circ> info) (probe_ctx env dev s) = Some (uint (msix_vector env 0))
      \<and> map_option (irq_flags \<circ> info) (probe_ctx env dev s) = Some 0)
   \<and> (first_failure env dev = None \<and> enable_msix_ret env \<noteq> 0 \<longrightarrow>
        map_option mode (probe_ctx env dev s) = Some IGBUIO_LEGACY_INTR_MODE
      \<and> map_option (irq \<circ> info) (probe_ctx env dev s) = Some (uint (dev_irq dev))
      \<and> map_option (irq_flags \<circ> info) (probe_ctx env dev s) = Some IRQF_SHARED)
   \<and> map_option mode (probe_ctx env dev s) \<noteq> Some IGBUIO_MSI_INTR_MODE
   \<and> probe_status (env\<lparr>enable_msix_ret := r2, msix_vector := v2, msix_descs := l2\<rparr>) dev s =
       probe_status env dev s"
proof (intro conjI)
  show "filter is_msix_request (probe_log env dev s) =
     (if probe_ready env dev
      then [Pci_enable_msix [0] IGBUIO_NUM_MSI_VECTORS (enable_msix_ret env)] else [])"
    by (simp add: probe_ready_resources(3) probe_not_ready(3) IGBUIO_NUM_MSI_VECTORS_def)
  show "probe_ready env dev \<and> enable_msix_ret env \<noteq> 0 \<longrightarrow>
        (\<exists>a b. probe_log env dev s =
             a @ [Pci_enable_msix [0] IGBUIO_NUM_MSI_VECTORS (enable_msix_ret env),
                  Pci_disable_msix] @ b)"
  proof
    assume h: "probe_ready env dev \<and> enable_msix_ret env \<noteq> 0"
    then obtain M where "probe_log env dev s =
               ready_log env dev @ msix_log env @ [Pci_set_drvdata, Spin_lock_irqsave, PCI_LOCK] @
               M @ [PCI_UNLOCK, Spin_unlock_irqrestore,
                    Uio_register_device (uio_register_ret env)] @ unwind_log env dev"
      using probe_ready_result(4) [of env dev s] by blast
    then have "probe_log env dev s =
        ready_log env dev @
        [Pci_enable_msix [0] IGBUIO_NUM_MSI_VECTORS (enable_msix_ret env), Pci_disable_msix] @
        (Printk Log_msix_fail # [Pci_set_drvdata, Spin_lock_irqsave, PCI_LOCK] @
           M @ [PCI_UNLOCK, Spin_unlock_irqrestore,
                Uio_register_device (uio_register_ret env)] @ unwind_log env dev)"
      using h by (simp add: msix_log_def IGBUIO_NUM_MSI_VECTORS_def)
    then show "\<exists>a b. probe_log env dev s =
             a @ [Pci_enable_msix [0] IGBUIO_NUM_MSI_VECTORS (enable_msix_ret env),
                  Pci_disable_msix] @ b"
      by blast
  qed
  have ctx: "map_option mode (probe_ctx env dev s) = Some (mode (chosen_udev env dev))
         \<and> map_option info (probe_ctx env dev s) = Some (info (chosen_udev env dev))"
    if "first_failure env dev = None"
    using that probe_ready_result(3) [of env dev s] by (simp add: first_failure_iff)
  show "first_failure env dev = None \<and> enable_msix_ret env = 0 \<longrightarrow>
        map_option mode (probe_ctx env dev s) = Some IGBUIO_MSIX_INTR_MODE
      \<and> map_option (irq \<circ> info) (probe_ctx env dev s) = Some (uint (msix_vector env 0))
      \<and> map_option (irq_flags \<circ> info) (probe_ctx env dev s) = Some 0"
    using ctx by (auto simp add: chosen_udev_def ready_udev_def)
  show "first_failure env dev = None \<and> enable_msix_ret env \<noteq> 0 \<longrightarrow>
        map_option mode (probe_ctx env dev s) = Some IGBUIO_LEGACY_INTR_MODE
      \<and> map_option (irq \<circ> info) (probe_ctx env dev s) = Some (uint (dev_irq dev))
      \<and> map_option (irq_flags \<circ> info) (probe_ctx env dev s) = Some IRQF_SHARED"
    using ctx by (auto simp add: chosen_udev_def ready_udev_def)
  show "map_option mode (probe_ctx env dev s) \<noteq> Some IGBUIO_MSI_INTR_MODE"
  proof (cases "first_failure env dev = None")
    case True
    then show ?thesis
      using ctx by (auto simp add: chosen_mode split: if_splits)
  next
    case False
    then have "probe_ctx env dev s = None"
      using probe_not_ready(2) [of env dev s] probe_ready_result(2) [of env dev s]
      by (auto simp add: first_failure_iff)
    then show ?thesis by simp
  qed
  have st: "probe_status e dev s =
      Some (if \<not> kzalloc_ok e then - ENOMEM
            else if probe_ready e dev \<and> uio_register_ret e = 0 then 0 else - ENODEV)" for e
    using probe_not_ready(1) [of e dev s] probe_ready_result(1) [of e dev s]
    by (cases "probe_ready e dev") (auto simp add: probe_ready_def)
  show "probe_status (env\<lparr>enable_msix_ret := r2, msix_vector := v2, msix_descs := l2\<rparr>) dev s =
       probe_status env dev s"
    by (simp add: st probe_ready_def)
qed

theorem C3_mode_selection_witness:
  "map_option mode (probe_ctx ex_env ex_bare_dev ex_kstate) = Some IGBUIO_MSIX_INTR_MODE
   \<and> map_option (irq \<circ> info) (probe_ctx ex_env ex_bare_dev ex_kstate) = Some 42
   \<and> filter is_msix_request (probe_log ex_env ex_bare_dev ex_kstate) =
       [Pci_enable_msix [0] 1 0]
   \<and> map_option mode (probe_ctx ex_env_no_msix ex_bare_dev ex_kstate) =
       Some IGBUIO_LEGACY_INTR_MODE
   \<and> map_option (irq \<circ> info) (probe_ctx ex_env_no_msix ex_bare_dev ex_kstate) = Some 11
   \<and> map_option (irq_flags \<circ> info) (probe_ctx ex_env_no_msix ex_bare_dev ex_kstate) = Some 0x80
   \<and> filter is_msix_request (probe_log ex_env_no_msix ex_bare_dev ex_kstate) =
       [Pci_enable_msix [0] 1 (- 28)]
   \<and> probe_status ex_env_no_msix ex_bare_dev ex_kstate = probe_status ex_env ex_bare_dev ex_kstate"
proof -
  have e: "enable_msix_ret ex_env = 0" "msix_vector ex_env 0 = 42"
    "enable_msix_ret ex_env_no_msix = - 28" "dev_irq ex_bare_dev = 11"
    by (simp_all add: ex_env_def ex_env_no_msix_def ex_bare_dev_def ex_dev_def)
  have u: "ex_env\<lparr>enable_msix_ret := - 28, msix_vector := msix_vector ex_env,
            msix_descs := msix_descs ex_env\<rparr> = ex_env_no_msix"
    by (simp add: ex_env_def ex_env_no_msix_def)
  show ?thesis
    using C3_mode_selection [where env = ex_env and dev = ex_bare_dev and s = ex_kstate
        and ?r2.0 = "- 28" and ?v2.0 = "msix_vector ex_env" and ?l2.0 = "msix_descs ex_env",
        unfolded u]
      C3_mode_selection [where env = ex_env_no_msix and dev = ex_bare_dev and s = ex_kstate
        and ?r2.0 = 0 and ?v2.0 = "msix_vector ex_env" and ?l2.0 = "[]"]
    by (simp add: ex_ready ex_first_failure e IGBUIO_NUM_MSI_VECTORS_def IRQF_SHARED_def)
qed

text \<open>
  C7, as the code has it. An attach that fails at context allocation, device enable, DMA
  mask, region reservation, iomem mapping or uio registration returns a negative status
  (\<open>-ENOMEM\<close> for the allocation, \<open>-ENODEV\<close> otherwise), frees the context and gives
  back exactly the resources it had taken, each once. It gives them back in the reverse
  of the order in which it took them, except that nothing is said of the order when the
  registration fails after a successful MSI-X request. A failed MSI-X request does not
  fail the attach. \<^verbatim>\<open>igbuio_pci_release_iomem\<close> goes through all \<open>MAX_UIO_MAPS\<close> slots
  in order and unmaps exactly those whose mapped pointer is not \<open>NULL\<close>.
\<close>

theorem C7_probe_unwind:
  "(first_failure env dev = None \<longrightarrow> probe_status env dev s = Some 0)
   \<and> (first_failure env dev \<noteq> None \<longrightarrow>
        probe_status env dev s =
          Some (if first_failure env dev = Some St_alloc then - ENOMEM else - ENODEV)
      \<and> (if first_failure env dev = Some St_alloc then - ENOMEM else - ENODEV) < 0
      \<and> probe_ctx env dev s = None
      \<and> mset (released (probe_log env dev s)) = mset (acquired (probe_log env dev s)))
   \<and> (first_failure env dev \<noteq> None
        \<and> \<not> (first_failure env dev = Some St_register \<and> enable_msix_ret env = 0) \<longrightarrow>
        released (probe_log env dev s) = rev (acquired (probe_log env dev s)))
   \<and> (length (mem uinfo) = MAX_UIO_MAPS \<longrightarrow>
        igbuio_pci_release_iomem uinfo s =
          s\<lparr>trace := trace s @
             map Iounmap (filter (\<lambda>p. p \<noteq> 0) (map internal_addr (mem uinfo)))\<rparr>)"
proof (intro conjI impI)
  show "probe_status env dev s = Some 0" if "first_failure env dev = None"
    using that probe_ready_result(1) [of env dev s] by (simp add: first_failure_iff)
  show "igbuio_pci_release_iomem uinfo s =
          s\<lparr>trace := trace s @
             map Iounmap (filter (\<lambda>p. p \<noteq> 0) (map internal_addr (mem uinfo)))\<rparr>"
    if "length (mem uinfo) = MAX_UIO_MAPS"
    using that by (rule release_iomem_eq)
  show "(if first_failure env dev = Some St_alloc then - ENOMEM else - ENODEV) < 0"
    by (simp add: ENOMEM_def ENODEV_def)
next
  assume f: "first_failure env dev \<noteq> None"
  show "probe_status env dev s =
          Some (if first_failure env dev = Some St_alloc then - ENOMEM else - ENODEV)"
  proof (cases "probe_ready env dev")
    case True
    then show ?thesis
      using f probe_ready_result(1) [OF True, of s]
      by (auto simp add: first_failure_iff probe_ready_def)
  next
    case False
    then show ?thesis
      using probe_not_ready(1) [OF False, of s] by (simp add: first_failure_iff)
  qed
  show "probe_ctx env dev s = None"
    using f probe_not_ready(2) [of env dev s] probe_ready_result(2) [of env dev s]
    by (auto simp add: first_failure_iff)
  show "mset (released (probe_log env dev s)) = mset (acquired (probe_log env dev s))"
  proof (cases "probe_ready env dev")
    case True
    then have "uio_register_ret env \<noteq> 0"
      using f by (simp add: first_failure_iff)
    then show ?thesis
      by (simp add: probe_ready_resources [OF True])
  next
    case False
    then show ?thesis
      by (simp add: probe_not_ready(4))
  qed
next
  assume h: "first_failure env dev \<noteq> None
        \<and> \<not> (first_failure env dev = Some St_register \<and> enable_msix_ret env = 0)"
  show "released (probe_log env dev s) = rev (acquired (probe_log env dev s))"
  proof (cases "probe_ready env dev")
    case True
    then have "uio_register_ret env \<noteq> 0" and "enable_msix_ret env \<noteq> 0"
      using h by (auto simp add: first_failure_iff)
    then show ?thesis
      by (simp add: probe_ready_resources [OF True])
  next
    case False
    then show ?thesis
      by (rule probe_not_ready(4))
  qed
qed

theorem C7_probe_unwind_witness:
  "probe_status ex_env ex_bare_dev ex_kstate = Some 0
   \<and> probe_status ex_env_no_msix_no_uio ex_bare_dev ex_kstate = Some (- 19)
   \<and> probe_ctx ex_env_no_msix_no_uio ex_bare_dev ex_kstate = None
   \<and> acquired (probe_log ex_env_no_msix_no_uio ex_bare_dev ex_kstate) =
       [Res_context, Res_device, Res_regions, Res_iomem 0xFFFFC90000000000, Res_msix]
   \<and> released (probe_log ex_env_no_msix_no_uio ex_bare_dev ex_kstate) =
       [Res_msix, Res_iomem 0xFFFFC90000000000, Res_regions, Res_device, Res_context]
   \<and> probe_status (ex_env\<lparr>kzalloc_ok := False\<rparr>) ex_bare_dev ex_kstate = Some (- 12)
   \<and> released (probe_log (ex_env\<lparr>kzalloc_ok := False\<rparr>) ex_bare_dev ex_kstate) = []
   \<and> igbuio_pci_release_iomem ex_uinfo ex_kstate =
       ex_kstate\<lparr>trace := [Iounmap 0xFFFFC90000000000, Iounmap 0xFFFFC90000200000]\<rparr>"
proof -
  have a: "acquired (probe_log ex_env_no_msix_no_uio ex_bare_dev ex_kstate) =
       [Res_context, Res_device, Res_regions, Res_iomem 0xFFFFC90000000000, Res_msix]"
    unfolding probe_ready_resources(1) [OF ex_ready(4)]
    by (simp add: ex_env_no_msix_no_uio_def ex_env_def)
  have b: "acquired (probe_log (ex_env\<lparr>kzalloc_ok := False\<rparr>) ex_bare_dev ex_kstate) = []"
    by (simp add: probe_log_def probe_early(1) acquired_def)
  have e: "enable_msix_ret ex_env_no_msix_no_uio \<noteq> 0"
    by (simp add: ex_env_no_msix_no_uio_def)
  have u: "length (mem ex_uinfo) = MAX_UIO_MAPS" "trace ex_kstate = []"
    "map internal_addr (mem ex_uinfo) = [0xFFFFC90000000000, 0, 0, 0xFFFFC90000200000, 0]"
    by (simp_all add: ex_uinfo_def MAX_UIO_MAPS_def ex_kstate_def zero_uio_mem_def)
  show ?thesis
    using C7_probe_unwind [of ex_env ex_bare_dev ex_kstate ex_uinfo]
      C7_probe_unwind [of ex_env_no_msix_no_uio ex_bare_dev ex_kstate ex_uinfo]
      C7_probe_unwind [of "ex_env\<lparr>kzalloc_ok := False\<rparr>" ex_bare_dev ex_kstate ex_uinfo]
    by (simp add: ex_first_failure a b e u ENOMEM_def ENODEV_def)
qed

text \<open>
  Where C7 as stated fails. With a failing MSI-X request and nothing else failing, the
  probe returns 0. With a successful MSI-X request and a failing registration, the mapping
  is unmapped before MSI-X is disabled, although MSI-X was taken after the mapping; the
  log also shows that the driver-data pointer set by \<^verbatim>\<open>pci_set_drvdata\<close> is not reset
  before the context is freed.
\<close>

theorem C7_probe_unwind_counterexample:
  "enable_msix_ret ex_env_no_msix \<noteq> 0
   \<and> probe_status ex_env_no_msix ex_bare_dev ex_kstate = Some 0
   \<and> probe_log ex_env_no_uio ex_bare_dev ex_kstate =
       [Kzalloc True, Pci_enable_device 0, Pci_set_dma_mask 0xffffffff 0,
        Pci_request_regions ''igb_uio'' 0, Pci_set_master,
        Ioremap 0x1000 0x1000 0xFFFFC90000000000, Spin_lock_init,
        Pci_enable_msix [0] 1 0, Pci_set_drvdata,
        Spin_lock_irqsave, PCI_LOCK, Writel 1 0x203C, Readl 0x2000, Set_masked 3 1,
        PCI_UNLOCK, Spin_unlock_irqrestore, Uio_register_device (- 12),
        Iounmap 0xFFFFC90000000000, Pci_disable_msix, Pci_release_regions,
        Pci_disable_device, Kfree]
   \<and> acquired (probe_log ex_env_no_uio ex_bare_dev ex_kstate) =
       [Res_context, Res_device, Res_regions, Res_iomem 0xFFFFC90000000000, Res_msix]
   \<and> released (probe_log ex_env_no_uio ex_bare_dev ex_kstate) =
       [Res_iomem 0xFFFFC90000000000, Res_msix, Res_regions, Res_device, Res_context]"
proof -
  have 1: "enable_msix_ret ex_env_no_msix \<noteq> 0"
    by (simp add: ex_env_no_msix_def)
  have 2: "probe_status ex_env_no_msix ex_bare_dev ex_kstate = Some 0"
    unfolding probe_ready_result(1) [OF ex_ready(2)]
    by (simp add: ex_env_no_msix_def ex_env_def)
  have 3: "probe_log ex_env_no_uio ex_bare_dev ex_kstate =
       [Kzalloc True, Pci_enable_device 0, Pci_set_dma_mask 0xffffffff 0,
        Pci_request_regions ''igb_uio'' 0, Pci_set_master,
        Ioremap 0x1000 0x1000 0xFFFFC90000000000, Spin_lock_init,
        Pci_enable_msix [0] 1 0, Pci_set_drvdata,
        Spin_lock_irqsave, PCI_LOCK, Writel 1 0x203C, Readl 0x2000, Set_masked 3 1,
        PCI_UNLOCK, Spin_unlock_irqrestore, Uio_register_device (- 12),
        Iounmap 0xFFFFC90000000000, Pci_disable_msix, Pci_release_regions,
        Pci_disable_device, Kfree]"
    by (simp add: probe_log_def probe_ready_eq [OF ex_ready(3)] chosen_udev_eq msix_log_eq
        probe_register_eq(3) [OF chosen_mem(1)] chosen_mem(2) [OF ex_ready(3)] chosen_mode
        mask_log_def msix_set_mask_eq msix_mask_irq_eq case_prod_beta)
      (simp add: chosen_udev_def ex_env_no_uio_def ex_env_def ex_bare_dev_def ex_dev_def
        ex_desc_def ex_kstate_def ready_log_def msix_log_def spec_msix_accesses_def
        spec_mask_word_def spec_ctrl_addr_def msix_mask_irq_eq case_prod_beta)
  show ?thesis
    unfolding 3 using 1 2 by (simp add: acquired_def released_def)
qed

end
